theory Spec2Isabelle
  imports Main
begin

section \<open>Text as Python sees it\<close>

text \<open>
  The assistant of \<^verbatim>\<open>app.py\<close> works on Python \<^verbatim>\<open>str\<close> values. They are modelled as
  \<^typ>\<open>string\<close>, one \<^typ>\<open>char\<close> per code point. A \<^typ>\<open>char\<close> is one of the code
  points 0 to 255, so the texts of the model are the Latin-1 texts; a text with a code
  point beyond 255 cannot be written down here. On these code points the case mappings
  and the white space below are Python's. The upper case of two letters, the micro sign
  \<open>0xB5\<close> and the y with diaeresis \<open>0xFF\<close>, lies beyond 255: \<open>upper_char\<close> leaves them as
  they are, and a text that begins with one of them is outside what \<open>capitalize\<close> can
  say.
\<close>

definition ascii_uppercase :: string where
  "ascii_uppercase = ''ABCDEFGHIJKLMNOPQRSTUVWXYZ''"

definition ascii_lowercase :: string where
  "ascii_lowercase = ''abcdefghijklmnopqrstuvwxyz''"

text \<open>
  The capital letters of the upper half of Latin-1, \<open>0xC0\<close> to \<open>0xDE\<close> without the
  multiplication sign \<open>0xD7\<close>, and their small letters, \<open>0xE0\<close> to \<open>0xFE\<close> without the
  division sign \<open>0xF7\<close>.
\<close>

definition latin1_uppercase :: string where
  "latin1_uppercase =
     [CHR 0xC0, CHR 0xC1, CHR 0xC2, CHR 0xC3, CHR 0xC4, CHR 0xC5, CHR 0xC6, CHR 0xC7,
      CHR 0xC8, CHR 0xC9, CHR 0xCA, CHR 0xCB, CHR 0xCC, CHR 0xCD, CHR 0xCE, CHR 0xCF,
      CHR 0xD0, CHR 0xD1, CHR 0xD2, CHR 0xD3, CHR 0xD4, CHR 0xD5, CHR 0xD6,
      CHR 0xD8, CHR 0xD9, CHR 0xDA, CHR 0xDB, CHR 0xDC, CHR 0xDD, CHR 0xDE]"

definition latin1_lowercase :: string where
  "latin1_lowercase =
     [CHR 0xE0, CHR 0xE1, CHR 0xE2, CHR 0xE3, CHR 0xE4, CHR 0xE5, CHR 0xE6, CHR 0xE7,
      CHR 0xE8, CHR 0xE9, CHR 0xEA, CHR 0xEB, CHR 0xEC, CHR 0xED, CHR 0xEE, CHR 0xEF,
      CHR 0xF0, CHR 0xF1, CHR 0xF2, CHR 0xF3, CHR 0xF4, CHR 0xF5, CHR 0xF6,
      CHR 0xF8, CHR 0xF9, CHR 0xFA, CHR 0xFB, CHR 0xFC, CHR 0xFD, CHR 0xFE]"

lemmas case_tables =
  ascii_uppercase_def ascii_lowercase_def latin1_uppercase_def latin1_lowercase_def

text \<open>\<^verbatim>\<open>c.lower()\<close> of one character.\<close>

definition lower_char :: "char \<Rightarrow> char" where
  "lower_char c =
     (case map_of (zip (ascii_uppercase @ latin1_uppercase) (ascii_lowercase @ latin1_lowercase)) c
      of Some d \<Rightarrow> d | None \<Rightarrow> c)"

text \<open>
  The upper case of a small letter, where that is again one character of the type: the
  sharp s \<open>0xDF\<close>, the micro sign and the y with diaeresis stay as they are.
\<close>

definition upper_char :: "char \<Rightarrow> char" where
  "upper_char c =
     (case map_of (zip (ascii_lowercase @ latin1_lowercase) (ascii_uppercase @ latin1_uppercase)) c
      of Some d \<Rightarrow> d | None \<Rightarrow> c)"

text \<open>
  The title case of one character, which \<^verbatim>\<open>capitalize\<close> gives to the first: the upper
  case, and for the sharp s the two letters \<open>Ss\<close>.
\<close>

definition title_char :: "char \<Rightarrow> string" where
  "title_char c = (if c = CHR 0xDF then ''Ss'' else [upper_char c])"

text \<open>\<^verbatim>\<open>s.lower()\<close>\<close>

definition lower :: "string \<Rightarrow> string" where
  "lower s = map lower_char s"

text \<open>\<^verbatim>\<open>s.capitalize()\<close>: the first character in title case, all the others in lower case.\<close>

definition capitalize :: "string \<Rightarrow> string" where
  "capitalize s = (case s of [] \<Rightarrow> [] | c # cs \<Rightarrow> title_char c @ lower cs)"

text \<open>\<^verbatim>\<open>s.startswith(p)\<close>\<close>

fun startswith :: "string \<Rightarrow> string \<Rightarrow> bool" where
  "startswith s [] = True"
| "startswith [] (p # ps) = False"
| "startswith (c # cs) (p # ps) = (c = p \<and> startswith cs ps)"

text \<open>\<^verbatim>\<open>sub in s\<close>: \<open>sub\<close> occurs somewhere in \<open>s\<close> as a contiguous run.\<close>

fun contains :: "string \<Rightarrow> string \<Rightarrow> bool" where
  "contains sub [] = (sub = [])"
| "contains sub (c # cs) = (startswith (c # cs) sub \<or> contains sub cs)"

text \<open>
  \<^verbatim>\<open>s.replace(old, new)\<close>: the occurrences of \<open>old\<close> are replaced from left to right,
  without overlap. For an empty \<open>old\<close> Python puts \<open>new\<close> before every character and at
  the end.
\<close>

fun replace :: "string \<Rightarrow> string \<Rightarrow> string \<Rightarrow> string" where
  "replace old new [] = (if old = [] then new else [])"
| "replace old new (c # cs) =
     (if old = [] then new @ c # replace old new cs
      else if startswith (c # cs) old then new @ replace old new (drop (length old - 1) cs)
      else c # replace old new cs)"

text \<open>
  \<^verbatim>\<open>c.isspace()\<close>: tab, line feed, vertical tab, form feed, carriage return, the four
  separators \<open>0x1C\<close> to \<open>0x1F\<close>, the space, the next-line control \<open>0x85\<close> and the no-break
  space \<open>0xA0\<close>.
\<close>

definition whitespace :: string where
  "whitespace = [CHR 0x09, CHR 0x0A, CHR 0x0B, CHR 0x0C, CHR 0x0D,
                 CHR 0x1C, CHR 0x1D, CHR 0x1E, CHR 0x1F, CHR 0x20, CHR 0x85, CHR 0xA0]"

definition isspace :: "char \<Rightarrow> bool" where
  "isspace c = (c \<in> set whitespace)"

text \<open>\<^verbatim>\<open>s.strip()\<close>\<close>

definition lstrip :: "string \<Rightarrow> string" where
  "lstrip s = dropWhile isspace s"

definition rstrip :: "string \<Rightarrow> string" where
  "rstrip s = rev (dropWhile isspace (rev s))"

definition strip :: "string \<Rightarrow> string" where
  "strip s = rstrip (lstrip s)"

text \<open>\<^verbatim>\<open>sep.join(xs)\<close>\<close>

fun join :: "string \<Rightarrow> string list \<Rightarrow> string" where
  "join sep [] = []"
| "join sep [x] = x"
| "join sep (x # y # ys) = x @ sep @ join sep (y # ys)"

text \<open>\<^verbatim>\<open>str(n)\<close> for an integer.\<close>

definition digit_char :: "nat \<Rightarrow> char" where
  "digit_char d = ''0123456789'' ! (d mod 10)"

fun str_nat :: "nat \<Rightarrow> string" where
  "str_nat n = (if n < 10 then [digit_char n] else str_nat (n div 10) @ [digit_char (n mod 10)])"

definition str_int :: "int \<Rightarrow> string" where
  "str_int i = (if i < 0 then CHR ''-'' # str_nat (nat (- i)) else str_nat (nat i))"

section \<open>The values of a parsed JSON document\<close>

text \<open>
  \<^verbatim>\<open>response.json()\<close> yields Python values: \<^verbatim>\<open>None\<close>, booleans, integers, floats,
  strings, lists and dicts with string keys. Floating-point arithmetic is outside the
  model: a float is given by the text that Python's \<^verbatim>\<open>repr\<close> prints for it
  (\<open>21.0\<close> is \<open>JFloat ''21.0''\<close>), which is all the program does with one. A dict is the
  list of its items in insertion order; its keys are distinct.
\<close>

datatype json =
    JNull
  | JBool bool
  | JInt int
  | JFloat string
  | JStr string
  | JList "json list"
  | JObj "(string \<times> json) list"

text \<open>The exceptions the program meets; all of them are subclasses of \<^verbatim>\<open>Exception\<close>.\<close>

datatype exc =
    UnknownValueError
  | RequestError
  | WaitTimeoutError
  | DisambiguationError "string list"
  | PageError
  | KeyError
  | TypeError
  | IndexError
  | OtherException string

text \<open>
  \<^verbatim>\<open>repr(s)\<close> of a string: single quotes, unless the string has a single quote and no
  double quote; the quote and the backslash are escaped; tab, line feed and carriage
  return are written \<^verbatim>\<open>\t\<close>, \<^verbatim>\<open>\n\<close>, \<^verbatim>\<open>\r\<close>; the other characters that do not print,
  which are those below \<open>0x20\<close>, \<open>0x7F\<close> to \<open>0xA0\<close> and the soft hyphen \<open>0xAD\<close>, are written
  \<^verbatim>\<open>\xhh\<close>.
\<close>

definition backslash :: char where
  "backslash = CHR 0x5C"

definition hex_digit :: "nat \<Rightarrow> char" where
  "hex_digit d = ''0123456789abcdef'' ! (d mod 16)"

definition repr_char :: "char \<Rightarrow> char \<Rightarrow> string" where
  "repr_char quote c =
     (if c = quote \<or> c = backslash then [backslash, c]
      else if c = CHR 0x09 then [backslash, CHR ''t'']
      else if c = CHR 0x0A then [backslash, CHR ''n'']
      else if c = CHR 0x0D then [backslash, CHR ''r'']
      else if (of_char c :: nat) < 32 \<or> (127 \<le> (of_char c :: nat) \<and> (of_char c :: nat) \<le> 160)
              \<or> c = CHR 0xAD
        then [backslash, CHR ''x'', hex_digit (of_char c div 16), hex_digit (of_char c mod 16)]
      else [c])"

definition repr_str :: "string \<Rightarrow> string" where
  "repr_str s =
     (let quote = (if CHR 0x27 \<in> set s \<and> CHR 0x22 \<notin> set s then CHR 0x22 else CHR 0x27)
      in quote # concat (map (repr_char quote) s) @ [quote])"

text \<open>\<^verbatim>\<open>repr(v)\<close> and \<^verbatim>\<open>str(v)\<close>; an f-string field \<^verbatim>\<open>{v}\<close> is \<^verbatim>\<open>str(v)\<close>.\<close>

fun py_repr :: "json \<Rightarrow> string" where
  "py_repr JNull = ''None''"
| "py_repr (JBool b) = (if b then ''True'' else ''False'')"
| "py_repr (JInt i) = str_int i"
| "py_repr (JFloat r) = r"
| "py_repr (JStr s) = repr_str s"
| "py_repr (JList xs) = ''['' @ join '', '' (map py_repr xs) @ '']''"
| "py_repr (JObj kvs) =
     ''{'' @ join '', '' (map (\<lambda>kv. repr_str (fst kv) @ '': '' @ py_repr (snd kv)) kvs) @ ''}''"

definition py_str :: "json \<Rightarrow> string" where
  "py_str v = (case v of JStr s \<Rightarrow> s | _ \<Rightarrow> py_repr v)"

text \<open>
  \<^verbatim>\<open>v[key]\<close> with a string key: a dict answers or raises \<^verbatim>\<open>KeyError\<close>; a list or a string
  wants an integer index and the other values cannot be subscripted, both a
  \<^verbatim>\<open>TypeError\<close>.
\<close>

definition subscript_key :: "json \<Rightarrow> string \<Rightarrow> exc + json" where
  "subscript_key v k =
     (case v of
        JObj kvs \<Rightarrow> (case map_of kvs k of None \<Rightarrow> Inl KeyError | Some x \<Rightarrow> Inr x)
      | _ \<Rightarrow> Inl TypeError)"

text \<open>
  \<^verbatim>\<open>v[0]\<close>: the first element of a list or the first character of a string, an
  \<^verbatim>\<open>IndexError\<close> when there is none; a dict has string keys only, so \<open>0\<close> is a
  \<^verbatim>\<open>KeyError\<close>.
\<close>

definition subscript_0 :: "json \<Rightarrow> exc + json" where
  "subscript_0 v =
     (case v of
        JList xs \<Rightarrow> (case xs of [] \<Rightarrow> Inl IndexError | x # _ \<Rightarrow> Inr x)
      | JStr s \<Rightarrow> (case s of [] \<Rightarrow> Inl IndexError | c # _ \<Rightarrow> Inr (JStr [c]))
      | JObj kvs \<Rightarrow> Inl KeyError
      | _ \<Rightarrow> Inl TypeError)"

text \<open>
  \<^verbatim>\<open>v == 200\<close>: an integer or a float of that value. \<^verbatim>\<open>True\<close> and \<^verbatim>\<open>False\<close> compare as
  \<open>1\<close> and \<open>0\<close>; a string, \<^verbatim>\<open>''200''\<close> too, is never equal to a number.
\<close>

definition equals_200 :: "json \<Rightarrow> bool" where
  "equals_200 v = (case v of JInt i \<Rightarrow> i = 200 | JFloat r \<Rightarrow> r = ''200.0'' | _ \<Rightarrow> False)"

section \<open>Effects: what a run prints, plays, asks and hears\<close>

text \<open>
  A run of the assistant is observed through the calls it makes to the outside world,
  in order: what it prints, the speech lock it takes and gives back, the calls to the
  speech device, the sound player, the microphone and the recogniser, and the requests
  to the weather service, to Wikipedia and to the text generator.
\<close>

datatype event =
    Print string
  | PrintExc string exc
  | Traceback
  | Acquire
  | Release
  | SapiSpeak string
  | EngineInit string
  | SetProperty string json
  | Say string
  | RunAndWait
  | EngineStop
  | Playsound string
  | MicOpen
  | MicClose
  | AdjustNoise
  | RecordAudio
  | Recognize
  | HttpGet string
  | WikiSetLang string
  | WikiSummary string nat
  | Generate string nat nat

text \<open>
  \<open>PrintExc p e\<close> is \<^verbatim>\<open>print(f"p{e}")\<close>: the text of an exception is the library's and
  is not modelled.

  One call of \<^verbatim>\<open>listen()\<close> meets one \<open>capture\<close>: whether opening the microphone,
  measuring the ambient noise or recording raises, and what the recogniser makes of the
  recording. The captures of a run are a list, consumed from the front; when it is
  used up the run is still waiting at the microphone (\<open>Awaits\<close>).
\<close>

record capture =
  mic_fault :: "exc option"
  noise_fault :: "exc option"
  audio_fault :: "exc option"
  transcript :: "exc + string"

definition heard :: "string \<Rightarrow> capture" where
  "heard u = \<lparr>mic_fault = None, noise_fault = None, audio_fault = None, transcript = Inr u\<rparr>"

definition not_recognized :: "exc \<Rightarrow> capture" where
  "not_recognized e =
     \<lparr>mic_fault = None, noise_fault = None, audio_fault = None, transcript = Inl e\<rparr>"

definition not_recorded :: "exc \<Rightarrow> capture" where
  "not_recorded e =
     \<lparr>mic_fault = None, noise_fault = None, audio_fault = Some e, transcript = Inl e\<rparr>"

definition no_microphone :: "exc \<Rightarrow> capture" where
  "no_microphone e =
     \<lparr>mic_fault = Some e, noise_fault = None, audio_fault = None, transcript = Inl e\<rparr>"

datatype 'a result = Returns 'a | Raises exc | Awaits

type_synonym 'a io = "capture list \<Rightarrow> event list \<times> 'a result \<times> capture list"

definition io_return :: "'a \<Rightarrow> 'a io" where
  "io_return x cs = ([], Returns x, cs)"

definition io_raise :: "exc \<Rightarrow> 'a io" where
  "io_raise e cs = ([], Raises e, cs)"

text \<open>Statements in sequence: an exception of the first skips the second.\<close>

definition io_bind :: "'a io \<Rightarrow> ('a \<Rightarrow> 'b io) \<Rightarrow> 'b io" where
  "io_bind m f cs =
     (case m cs of
        (ev, Returns x, cs') \<Rightarrow> (case f x cs' of (ev', r, cs'') \<Rightarrow> (ev @ ev', r, cs''))
      | (ev, Raises e, cs') \<Rightarrow> (ev, Raises e, cs')
      | (ev, Awaits, cs') \<Rightarrow> (ev, Awaits, cs'))"

definition io_then :: "'a io \<Rightarrow> 'b io \<Rightarrow> 'b io" where
  "io_then m n = io_bind m (\<lambda>_. n)"

text \<open>\<^verbatim>\<open>try: m except Exception as e: h(e)\<close>\<close>

definition io_try :: "'a io \<Rightarrow> (exc \<Rightarrow> 'a io) \<Rightarrow> 'a io" where
  "io_try m h cs =
     (case m cs of
        (ev, Raises e, cs') \<Rightarrow> (case h e cs' of (ev', r, cs'') \<Rightarrow> (ev @ ev', r, cs''))
      | (ev, r, cs') \<Rightarrow> (ev, r, cs'))"

text \<open>
  \<^verbatim>\<open>with ...: m\<close>: the exit call \<open>ex\<close> is made when the body returns and when it raises,
  and the exception goes on after it.
\<close>

definition io_with :: "unit io \<Rightarrow> event \<Rightarrow> 'a io \<Rightarrow> 'a io" where
  "io_with enter ex m =
     io_bind enter (\<lambda>_ cs.
       case m cs of
         (ev, Returns x, cs') \<Rightarrow> (ev @ [ex], Returns x, cs')
       | (ev, Raises e, cs') \<Rightarrow> (ev @ [ex], Raises e, cs')
       | (ev, Awaits, cs') \<Rightarrow> (ev, Awaits, cs'))"

definition emit :: "event \<Rightarrow> unit io" where
  "emit e cs = ([e], Returns (), cs)"

text \<open>A call to the outside that may raise: the call is made, then it returns or raises.\<close>

definition call :: "exc option \<Rightarrow> event \<Rightarrow> unit io" where
  "call fault e cs = ([e], (case fault of None \<Rightarrow> Returns () | Some x \<Rightarrow> Raises x), cs)"

definition call_value :: "exc + 'a \<Rightarrow> event \<Rightarrow> 'a io" where
  "call_value outcome e cs =
     ([e], (case outcome of Inl x \<Rightarrow> Raises x | Inr v \<Rightarrow> Returns v), cs)"

definition io_of_sum :: "exc + 'a \<Rightarrow> 'a io" where
  "io_of_sum v = (case v of Inl e \<Rightarrow> io_raise e | Inr x \<Rightarrow> io_return x)"

text \<open>The next capture of the run, for one call of \<^verbatim>\<open>listen()\<close>.\<close>

definition next_capture :: "capture io" where
  "next_capture cs = (case cs of [] \<Rightarrow> ([], Awaits, []) | c # cs' \<Rightarrow> ([], Returns c, cs'))"

text \<open>
  The module's globals, fixed when the module is loaded (lines 41 to 71), and the
  outside world: which calls to the speech device raise, which sound files exist and
  whether playing one raises, what the weather service, Wikipedia and the generator
  answer. The world answers the same request the same way throughout a run.
\<close>

record globals =
  USE_WIN32 :: bool
  VOICE_ID :: "string option"
  generator :: bool

datatype http_reply = ConnectionFailed exc | NotJson exc | Body json

record world =
  tts_fault :: "event \<Rightarrow> exc option"
  path_exists :: "string \<Rightarrow> bool"
  playsound_fault :: "string \<Rightarrow> exc option"
  http_get :: "string \<Rightarrow> http_reply"
  wiki_summary :: "string \<Rightarrow> exc + string"
  generated_text :: "string \<Rightarrow> exc + string"

text \<open>A block of statements that return nothing.\<close>

fun io_seq :: "unit io list \<Rightarrow> unit io" where
  "io_seq [] = io_return ()"
| "io_seq (m # ms) = io_then m (io_seq ms)"

section \<open>The functions of \<^verbatim>\<open>app.py\<close>\<close>

subsection \<open>\<^verbatim>\<open>play_beep\<close> (lines 74 to 84)\<close>

definition START_BEEP_PATH :: string where
  "START_BEEP_PATH = join [backslash]
     [''c:'', ''Users'', ''TS PDA'', ''Documents'', ''Projects'', ''Python'',
      ''Voice Assistant'', ''sounds1'', ''point-smooth-beep-230573.wav'']"

definition STOP_BEEP_PATH :: string where
  "STOP_BEEP_PATH = join [backslash]
     [''c:'', ''Users'', ''TS PDA'', ''Documents'', ''Projects'', ''Python'',
      ''Voice Assistant'', ''sounds1'', ''beep-6-96243.wav'']"

definition play_beep :: "world \<Rightarrow> bool \<Rightarrow> unit io" where
  "play_beep w start =
     (let beep_file = (if start then START_BEEP_PATH else STOP_BEEP_PATH) in
      if path_exists w beep_file then
        io_try (call (playsound_fault w beep_file) (Playsound beep_file))
          (\<lambda>e. emit (PrintExc (''Error while playing '' @ beep_file @ '': '') e))
      else io_return ())"

subsection \<open>\<^verbatim>\<open>speak\<close> (lines 87 to 112)\<close>

text \<open>A call to the speech device; the world says whether it raises.\<close>

definition device :: "world \<Rightarrow> event \<Rightarrow> unit io" where
  "device w e = call (tts_fault w e) e"

text \<open>Lines 90 to 112, the \<^verbatim>\<open>try\<close> statement that runs while the lock is held.\<close>

definition speak_try :: "globals \<Rightarrow> world \<Rightarrow> string \<Rightarrow> unit io" where
  "speak_try g w text =
     io_try
       (if USE_WIN32 g then
          io_seq
            [device w (SapiSpeak text),
             emit (Print ''[SPEAK] Speech completed (WIN32)'')]
        else
          io_seq
            [device w (EngineInit ''sapi5''),
             device w (SetProperty ''rate'' (JInt 160)),
             device w (SetProperty ''volume'' (JFloat ''1.0'')),
             (case VOICE_ID g of
                None \<Rightarrow> io_return ()
              | Some v \<Rightarrow>
                  if v \<noteq> [] then device w (SetProperty ''voice'' (JStr v))
                  else io_return ()),
             device w (Say text),
             device w RunAndWait,
             device w EngineStop,
             emit (Print ''[SPEAK] Speech completed (pyttsx3)'')])
       (\<lambda>e. io_seq [emit (PrintExc ''[SPEAK ERROR] '' e), emit Traceback])"

definition speak :: "globals \<Rightarrow> world \<Rightarrow> string \<Rightarrow> unit io" where
  "speak g w text =
     io_then (emit (Print (''[SPEAK] Attempting to speak: '' @ take 50 text @ ''...'')))
       (io_with (emit Acquire) Release (speak_try g w text))"

text \<open>The pair \<^verbatim>\<open>print(t); speak(t)\<close>, which the program writes at every message.\<close>

definition print_and_speak :: "globals \<Rightarrow> world \<Rightarrow> string \<Rightarrow> unit io" where
  "print_and_speak g w t = io_then (emit (Print t)) (speak g w t)"

subsection \<open>\<^verbatim>\<open>listen\<close> (lines 115 to 142)\<close>

definition listen_except :: "globals \<Rightarrow> world \<Rightarrow> exc \<Rightarrow> string io" where
  "listen_except g w e =
     (case e of
        UnknownValueError \<Rightarrow>
          io_then (play_beep w False)
         (io_then (print_and_speak g w ''Sorry, I didn't catch that. Could you repeat?'')
                  (io_return ''''))
      | RequestError \<Rightarrow>
          io_then (play_beep w False)
         (io_then (print_and_speak g w
                     ''There seems to be an internet issue. Please check your connection.'')
                  (io_return ''''))
      | _ \<Rightarrow>
          io_then (play_beep w False)
         (io_then (emit (PrintExc ''Error: '' e))
         (io_then (speak g w ''Something went wrong. Could you try again?'')
                  (io_return ''''))))"

text \<open>Lines 117 to 142: the body of \<^verbatim>\<open>listen\<close>, for the capture \<open>c\<close> that this call meets.\<close>

definition listen_to :: "globals \<Rightarrow> world \<Rightarrow> capture \<Rightarrow> string io" where
  "listen_to g w c =
     io_with (call (mic_fault c) MicOpen) MicClose
       (io_then (call (noise_fault c) AdjustNoise)
       (io_then (emit (Print ''Listening...''))
       (io_then (play_beep w True)
       (io_try
          (io_then (call (audio_fault c) RecordAudio)
          (io_then (play_beep w False)
          (io_then (emit (Print ''Processing...''))
          (io_bind (call_value (transcript c) Recognize) (\<lambda>query.
           io_then (emit (Print (''You said: '' @ query)))
                   (io_return query))))))
          (listen_except g w)))))"

definition listen :: "globals \<Rightarrow> world \<Rightarrow> string io" where
  "listen g w = io_bind next_capture (listen_to g w)"

subsection \<open>\<^verbatim>\<open>generate_ai_response\<close> (lines 145 to 154)\<close>

definition generate_ai_response :: "globals \<Rightarrow> world \<Rightarrow> string \<Rightarrow> string io" where
  "generate_ai_response g w prompt =
     (if generator g then
        io_try
          (io_bind (call_value (generated_text w prompt) (Generate prompt 100 1))
             (\<lambda>text. io_return (strip text)))
          (\<lambda>e. io_then (emit (PrintExc ''Error generating AI response: '' e))
                  (io_return ''I couldn't think of a response. Let me try again later.''))
      else io_return ''AI generation isn't available at the moment.'')"

subsection \<open>\<^verbatim>\<open>get_weather\<close> (lines 157 to 170)\<close>

definition degree :: string where
  "degree = [CHR 0xB0]"

definition weather_url :: "string \<Rightarrow> string \<Rightarrow> string" where
  "weather_url city api_key =
     ''http://api.openweathermap.org/data/2.5/weather?q='' @ city @ ''&appid='' @ api_key
       @ ''&units=metric''"

text \<open>An expression that may raise, and the next one that uses its value.\<close>

definition sum_bind :: "exc + 'a \<Rightarrow> ('a \<Rightarrow> exc + 'b) \<Rightarrow> exc + 'b" where
  "sum_bind v f = (case v of Inl e \<Rightarrow> Inl e | Inr x \<Rightarrow> f x)"

text \<open>Lines 162 to 167: from the parsed answer to the sentence.\<close>

definition weather_report :: "string \<Rightarrow> json \<Rightarrow> exc + string" where
  "weather_report city data =
     sum_bind (subscript_key data ''cod'') (\<lambda>cod.
       if \<not> equals_200 cod then
         sum_bind (subscript_key data ''message'') (\<lambda>message.
           Inr (''Error: '' @ py_str message))
       else
         sum_bind (sum_bind (sum_bind (subscript_key data ''weather'') subscript_0)
                     (\<lambda>first. subscript_key first ''description'')) (\<lambda>weather.
         sum_bind (sum_bind (subscript_key data ''main'') (\<lambda>main. subscript_key main ''temp''))
           (\<lambda>temp.
         sum_bind (sum_bind (subscript_key data ''main'')
                     (\<lambda>main. subscript_key main ''feels_like'')) (\<lambda>feels_like.
           Inr (capitalize city @ '' weather: '' @ py_str weather @ '', '' @ py_str temp
                  @ degree @ ''C, feels like '' @ py_str feels_like @ degree @ ''C.'')))))"

definition get_weather :: "world \<Rightarrow> string \<Rightarrow> string \<Rightarrow> string io" where
  "get_weather w city api_key =
     (let url = weather_url city api_key in
      io_try
        (io_bind
           (call_value
              (case http_get w url of
                 ConnectionFailed e \<Rightarrow> Inl e
               | NotJson e \<Rightarrow> Inl e
               | Body data \<Rightarrow> Inr data)
              (HttpGet url))
           (\<lambda>data. io_of_sum (weather_report city data)))
        (\<lambda>e. io_then (emit (PrintExc ''Error fetching weather data: '' e))
                (io_return ''I couldn't fetch the weather details. Please try later.'')))"

subsection \<open>\<^verbatim>\<open>get_wikipedia_summary\<close> (lines 173 to 185)\<close>

definition get_wikipedia_summary :: "world \<Rightarrow> string \<Rightarrow> string io" where
  "get_wikipedia_summary w query =
     io_try
       (io_then (emit (WikiSetLang ''en''))
                (call_value (wiki_summary w query) (WikiSummary query 7)))
       (\<lambda>e. case e of
          DisambiguationError options \<Rightarrow>
            io_return (''Your query is too broad. Did you mean: ''
                         @ join '', '' (take 3 options) @ ''?'')
        | PageError \<Rightarrow>
            io_return ''I couldn't find any information on that topic. Please try rephrasing.''
        | _ \<Rightarrow>
            io_then (emit (PrintExc ''Error accessing Wikipedia: '' e))
              (io_return ''I encountered an issue accessing Wikipedia. Please try again later.''))"

subsection \<open>\<^verbatim>\<open>ai_talking_friend\<close> (lines 188 to 237)\<close>

text \<open>How one pass through the body of \<^verbatim>\<open>while True\<close> ends.\<close>

datatype control = Continue | Break

text \<open>Lines 204 to 213, the body of \<^verbatim>\<open>if "weather" in user_query.lower()\<close>.\<close>

definition weather_turn :: "globals \<Rightarrow> world \<Rightarrow> string \<Rightarrow> unit io" where
  "weather_turn g w api_key =
     io_then (print_and_speak g w ''Which city should I check?'')
       (io_bind (listen g w) (\<lambda>city.
          if city \<noteq> [] then
            io_bind (get_weather w city api_key) (\<lambda>weather_info.
              print_and_speak g w weather_info)
          else print_and_speak g w ''I couldn't understand the city name. Please try again.''))"

text \<open>Line 216, the topic of an encyclopedia query.\<close>

definition extract_topic :: "string \<Rightarrow> string" where
  "extract_topic user_query =
     strip (replace ''tell me about'' '''' (replace ''Wikipedia'' '''' user_query))"

text \<open>Lines 216 to 225, the body of the \<^verbatim>\<open>elif\<close>.\<close>

definition wikipedia_turn :: "globals \<Rightarrow> world \<Rightarrow> string \<Rightarrow> unit io" where
  "wikipedia_turn g w user_query =
     (let topic = extract_topic user_query in
      if topic \<noteq> [] then
        io_then (print_and_speak g w (''Searching Wikipedia for '' @ topic @ ''...''))
          (io_bind (get_wikipedia_summary w topic) (\<lambda>summary.
             print_and_speak g w summary))
      else print_and_speak g w ''Please specify a topic for me to search.'')"

text \<open>Lines 228 to 232, the body of the \<^verbatim>\<open>else\<close>.\<close>

definition chat_turn :: "globals \<Rightarrow> world \<Rightarrow> string \<Rightarrow> unit io" where
  "chat_turn g w user_query =
     io_then (print_and_speak g w ''Thinking...'')
       (io_bind (generate_ai_response g w user_query) (\<lambda>response.
          print_and_speak g w response))"

text \<open>Lines 195 to 237: the rest of a pass through the loop, once \<open>user_query\<close> is known.\<close>

definition handle_query :: "globals \<Rightarrow> world \<Rightarrow> string \<Rightarrow> string \<Rightarrow> control io" where
  "handle_query g w api_key user_query =
     (if user_query = [] then io_return Continue
      else if contains ''bye'' (lower user_query) then
        io_then (print_and_speak g w ''Goodbye! Talk to you soon!'') (io_return Break)
      else
        io_then
          (if contains ''weather'' (lower user_query) then weather_turn g w api_key
           else if contains ''Wikipedia'' (lower user_query)
                   \<or> contains ''tell me about'' (lower user_query)
             then wikipedia_turn g w user_query
           else chat_turn g w user_query)
          (io_then (print_and_speak g w ''Do you need help with anything else?'')
             (io_return Continue)))"

text \<open>Lines 193 to 237, one pass through the loop.\<close>

definition loop_body :: "globals \<Rightarrow> world \<Rightarrow> string \<Rightarrow> control io" where
  "loop_body g w api_key = io_bind (listen g w) (handle_query g w api_key)"

section \<open>What is observed of a run\<close>

text \<open>The requests that fetch an answer: weather, encyclopedia, generated text.\<close>

fun is_lookup :: "event \<Rightarrow> bool" where
  "is_lookup (HttpGet url) = True"
| "is_lookup (WikiSummary query n) = True"
| "is_lookup (Generate prompt n k) = True"
| "is_lookup e = False"

definition lookups :: "event list \<Rightarrow> event list" where
  "lookups es = filter is_lookup es"

text \<open>The calls that touch the speech-output device.\<close>

fun is_device :: "event \<Rightarrow> bool" where
  "is_device (SapiSpeak t) = True"
| "is_device (EngineInit n) = True"
| "is_device (SetProperty n v) = True"
| "is_device (Say t) = True"
| "is_device RunAndWait = True"
| "is_device EngineStop = True"
| "is_device e = False"

text \<open>
  The discipline of the speech lock, read off a trace: the lock is taken only when it
  is free and given back only when it is held, the device is touched only while it is
  held, and at the end it is free. The flag says whether the lock is held at the start.
\<close>

fun guarded :: "bool \<Rightarrow> event list \<Rightarrow> bool" where
  "guarded held [] = (\<not> held)"
| "guarded held (e # es) =
     (if e = Acquire then \<not> held \<and> guarded True es
      else if e = Release then held \<and> guarded False es
      else if is_device e then held \<and> guarded held es
      else guarded held es)"

text \<open>
  The topic of an encyclopedia query as the specification words it: the phrases
  ``wikipedia'' and ``tell me about'' removed as they are written, then trimmed.
\<close>

definition spec_topic :: "string \<Rightarrow> string" where
  "spec_topic user_query =
     strip (replace ''tell me about'' '''' (replace ''wikipedia'' '''' user_query))"

text \<open>Two settings of the globals and two worlds, for the examples.\<close>

definition win32_globals :: globals where
  "win32_globals = \<lparr>USE_WIN32 = True, VOICE_ID = None, generator = True\<rparr>"

definition pyttsx3_globals :: globals where
  "pyttsx3_globals = \<lparr>USE_WIN32 = False, VOICE_ID = Some ''david'', generator = False\<rparr>"

definition paris_answer :: json where
  "paris_answer =
     JObj [(''cod'', JInt 200),
           (''weather'', JList [JObj [(''description'', JStr ''clear sky'')]]),
           (''main'', JObj [(''temp'', JFloat ''21.0''), (''feels_like'', JFloat ''20.5'')])]"

definition not_found_answer :: json where
  "not_found_answer = JObj [(''cod'', JStr ''404''), (''message'', JStr ''city not found'')]"

definition apple_options :: "string list" where
  "apple_options = [''Apple Inc.'', ''Apple (fruit)'', ''Apple Records'']"

definition fair_world :: world where
  "fair_world =
     \<lparr>tts_fault = (\<lambda>e. None),
      path_exists = (\<lambda>p. False),
      playsound_fault = (\<lambda>p. None),
      http_get = (\<lambda>url. Body paris_answer),
      wiki_summary = (\<lambda>q. Inr (''About '' @ q)),
      generated_text = (\<lambda>p. Inr (p @ '' and so on  ''))\<rparr>"

definition foul_world :: world where
  "foul_world =
     \<lparr>tts_fault = (\<lambda>e. if e = RunAndWait then Some (OtherException ''no audio'') else None),
      path_exists = (\<lambda>p. True),
      playsound_fault = (\<lambda>p. Some (OtherException ''no codec'')),
      http_get = (\<lambda>url. Body not_found_answer),
      wiki_summary = (\<lambda>q. Inl (DisambiguationError (apple_options @ [''Apple Corps'']))),
      generated_text = (\<lambda>p. Inl (OtherException ''out of memory''))\<rparr>"

section \<open>Functions that do not listen\<close>

text \<open>
  Apart from \<^verbatim>\<open>listen\<close> and its callers, the functions leave the captures alone: what
  they do and what they return is the same wherever they are called in a run.
  \<open>detached\<close> says so, and \<open>returns\<close> adds that the function returns normally.
\<close>

definition events_of :: "'a io \<Rightarrow> event list" where
  "events_of m = fst (m [])"

definition result_of :: "'a io \<Rightarrow> 'a result" where
  "result_of m = fst (snd (m []))"

definition detached :: "'a io \<Rightarrow> bool" where
  "detached m = ((\<forall>cs. m cs = (events_of m, result_of m, cs)) \<and> result_of m \<noteq> Awaits)"

definition returns :: "'a io \<Rightarrow> bool" where
  "returns m = (detached m \<and> (\<exists>x. result_of m = Returns x))"

text \<open>\<open>keeps\<close>: a function gives no capture back. \<open>emits P\<close>: every event it makes satisfies \<open>P\<close>.\<close>

definition keeps :: "'a io \<Rightarrow> bool" where
  "keeps m = (\<forall>cs ev r cs'. m cs = (ev, r, cs') \<longrightarrow> length cs' \<le> length cs)"

definition emits :: "(event \<Rightarrow> bool) \<Rightarrow> 'a io \<Rightarrow> bool" where
  "emits P m = (\<forall>cs ev r cs'. m cs = (ev, r, cs') \<longrightarrow> list_all P ev)"

text \<open>Inside the lock, \<^verbatim>\<open>speak\<close> neither takes nor gives back the lock, and looks nothing up.\<close>

definition inner :: "event \<Rightarrow> bool" where
  "inner e = (e \<noteq> Acquire \<and> e \<noteq> Release \<and> \<not> is_lookup e)"

definition no_lookup :: "event \<Rightarrow> bool" where
  "no_lookup e = (\<not> is_lookup e)"

section \<open>The loop ends when the captures do\<close>

text \<open>
  No function of the program gives a capture back, and \<^verbatim>\<open>listen()\<close> uses one up each
  time it returns; this is why the model of \<^verbatim>\<open>while True\<close> below is well defined.
\<close>

lemma keepsD: "keeps m \<Longrightarrow> m cs = (ev, r, cs') \<Longrightarrow> length cs' \<le> length cs"
  unfolding keeps_def by blast

lemma keeps_return: "keeps (io_return x)"
  by (simp add: keeps_def io_return_def)

lemma keeps_raise: "keeps (io_raise x)"
  by (simp add: keeps_def io_raise_def)

lemma keeps_emit: "keeps (emit x)"
  by (simp add: keeps_def emit_def)

lemma keeps_call: "keeps (call f x)"
  by (simp add: keeps_def call_def)

lemma keeps_call_value: "keeps (call_value f x)"
  by (simp add: keeps_def call_value_def)

lemma keeps_of_sum: "keeps (io_of_sum v)"
  by (cases v) (simp_all add: io_of_sum_def keeps_return keeps_raise)

lemma keeps_next_capture: "keeps next_capture"
  by (auto simp add: keeps_def next_capture_def split: list.splits)

lemma keeps_bind:
  assumes "keeps m" and "\<And>x. keeps (f x)"
  shows "keeps (io_bind m f)"
  unfolding keeps_def
proof (intro allI impI)
  fix cs ev r cs'
  assume h: "io_bind m f cs = (ev, r, cs')"
  obtain ev1 r1 cs1 where m: "m cs = (ev1, r1, cs1)"
    by (cases "m cs") auto
  have l1: "length cs1 \<le> length cs"
    using keepsD[OF assms(1) m] .
  show "length cs' \<le> length cs"
  proof (cases r1)
    case (Returns x)
    obtain ev2 r2 cs2 where f: "f x cs1 = (ev2, r2, cs2)"
      by (cases "f x cs1") auto
    have "length cs2 \<le> length cs1"
      using keepsD[OF assms(2) f] .
    moreover have "cs' = cs2"
      using h m f Returns by (simp add: io_bind_def)
    ultimately show ?thesis
      using l1 by simp
  next
    case (Raises e)
    then show ?thesis
      using h m l1 by (simp add: io_bind_def)
  next
    case Awaits
    then show ?thesis
      using h m l1 by (simp add: io_bind_def)
  qed
qed

lemma keeps_then: "keeps m \<Longrightarrow> keeps n \<Longrightarrow> keeps (io_then m n)"
  by (simp add: io_then_def keeps_bind)

lemma keeps_try:
  assumes "keeps m" and "\<And>e. keeps (h e)"
  shows "keeps (io_try m h)"
  unfolding keeps_def
proof (intro allI impI)
  fix cs ev r cs'
  assume t: "io_try m h cs = (ev, r, cs')"
  obtain ev1 r1 cs1 where m: "m cs = (ev1, r1, cs1)"
    by (cases "m cs") auto
  have l1: "length cs1 \<le> length cs"
    using keepsD[OF assms(1) m] .
  show "length cs' \<le> length cs"
  proof (cases r1)
    case (Raises e)
    obtain ev2 r2 cs2 where f: "h e cs1 = (ev2, r2, cs2)"
      by (cases "h e cs1") auto
    have "length cs2 \<le> length cs1"
      using keepsD[OF assms(2) f] .
    moreover have "cs' = cs2"
      using t m f Raises by (simp add: io_try_def)
    ultimately show ?thesis
      using l1 by simp
  next
    case (Returns x)
    then show ?thesis
      using t m l1 by (simp add: io_try_def)
  next
    case Awaits
    then show ?thesis
      using t m l1 by (simp add: io_try_def)
  qed
qed

lemma keeps_with:
  assumes "keeps enter" and "keeps m"
  shows "keeps (io_with enter ex m)"
  unfolding io_with_def
proof (rule keeps_bind[OF assms(1)])
  fix u :: unit
  show "keeps (\<lambda>cs. case m cs of
         (ev, Returns x, cs') \<Rightarrow> (ev @ [ex], Returns x, cs')
       | (ev, Raises e, cs') \<Rightarrow> (ev @ [ex], Raises e, cs')
       | (ev, Awaits, cs') \<Rightarrow> (ev, Awaits, cs'))"
    unfolding keeps_def
  proof (intro allI impI)
    fix cs ev r cs'
    assume h: "(case m cs of
         (ev, Returns x, cs') \<Rightarrow> (ev @ [ex], Returns x, cs')
       | (ev, Raises e, cs') \<Rightarrow> (ev @ [ex], Raises e, cs')
       | (ev, Awaits, cs') \<Rightarrow> (ev, Awaits, cs')) = (ev, r, cs')"
    obtain ev1 r1 cs1 where m: "m cs = (ev1, r1, cs1)"
      by (cases "m cs") auto
    have "length cs1 \<le> length cs"
      using keepsD[OF assms(2) m] .
    then show "length cs' \<le> length cs"
      using h m by (cases r1) auto
  qed
qed

lemma keeps_seq: "(\<And>m. m \<in> set ms \<Longrightarrow> keeps m) \<Longrightarrow> keeps (io_seq ms)"
  by (induction ms) (simp_all add: keeps_return keeps_then)

lemmas keeps_intros =
  keeps_return keeps_raise keeps_emit keeps_call keeps_call_value keeps_of_sum
  keeps_bind keeps_then keeps_try keeps_with keeps_seq

lemma keeps_play_beep: "keeps (play_beep w b)"
  by (simp add: play_beep_def Let_def keeps_intros)

lemma keeps_speak: "keeps (speak g w t)"
  unfolding speak_def speak_try_def device_def
  by (intro keeps_intros) (auto simp: keeps_intros split: option.splits)

lemma keeps_print_and_speak: "keeps (print_and_speak g w t)"
  by (simp add: print_and_speak_def keeps_intros keeps_speak)

lemma keeps_listen_except: "keeps (listen_except g w e)"
  unfolding listen_except_def
  by (cases e) (simp_all add: keeps_intros keeps_speak keeps_print_and_speak keeps_play_beep)

lemma keeps_listen_to: "keeps (listen_to g w c)"
  unfolding listen_to_def
  by (intro keeps_intros keeps_play_beep keeps_listen_except)

lemma keeps_listen: "keeps (listen g w)"
  by (simp add: listen_def keeps_bind keeps_next_capture keeps_listen_to)

lemma keeps_get_weather: "keeps (get_weather w c k)"
  by (simp add: get_weather_def Let_def keeps_intros)

lemma keeps_get_wikipedia_summary: "keeps (get_wikipedia_summary w q)"
  unfolding get_wikipedia_summary_def
  by (intro keeps_intros) (simp_all add: keeps_intros split: exc.splits)

lemma keeps_generate_ai_response: "keeps (generate_ai_response g w p)"
  by (simp add: generate_ai_response_def keeps_intros)

lemma keeps_weather_turn: "keeps (weather_turn g w k)"
  by (simp add: weather_turn_def keeps_intros keeps_print_and_speak keeps_listen
      keeps_get_weather)

lemma keeps_wikipedia_turn: "keeps (wikipedia_turn g w u)"
  by (simp add: wikipedia_turn_def Let_def keeps_intros keeps_print_and_speak
      keeps_get_wikipedia_summary)

lemma keeps_chat_turn: "keeps (chat_turn g w u)"
  by (simp add: chat_turn_def keeps_intros keeps_print_and_speak keeps_generate_ai_response)

lemma keeps_handle_query: "keeps (handle_query g w k u)"
  by (simp add: handle_query_def keeps_intros keeps_print_and_speak keeps_weather_turn
      keeps_wikipedia_turn keeps_chat_turn)

lemma bind_Returns:
  assumes "io_bind m f cs = (ev, Returns y, cs')"
  obtains ev1 x cs1 ev2 where "m cs = (ev1, Returns x, cs1)" and "f x cs1 = (ev2, Returns y, cs')"
proof -
  obtain ev1 r1 cs1 where m: "m cs = (ev1, r1, cs1)"
    by (cases "m cs") auto
  show ?thesis
  proof (cases r1)
    case (Returns x)
    obtain ev2 r2 cs2 where f: "f x cs1 = (ev2, r2, cs2)"
      by (cases "f x cs1") auto
    have "r2 = Returns y" "cs2 = cs'"
      using assms m f Returns by (simp_all add: io_bind_def)
    then show ?thesis
      using that m f Returns by simp
  next
    case (Raises e)
    then show ?thesis
      using assms m by (simp add: io_bind_def)
  next
    case Awaits
    then show ?thesis
      using assms m by (simp add: io_bind_def)
  qed
qed

lemma listen_consumes:
  assumes "listen g w cs = (ev, Returns q, cs')"
  shows "length cs' < length cs"
proof -
  from assms obtain ev1 c cs1 ev2 where n: "next_capture cs = (ev1, Returns c, cs1)"
    and r: "listen_to g w c cs1 = (ev2, Returns q, cs')"
    unfolding listen_def by (rule bind_Returns)
  have "length cs1 < length cs"
    using n by (auto simp: next_capture_def split: list.splits)
  moreover have "length cs' \<le> length cs1"
    using keepsD[OF keeps_listen_to r] .
  ultimately show ?thesis
    by simp
qed

lemma loop_body_consumes:
  assumes "loop_body g w k cs = (ev, Returns c, cs')"
  shows "length cs' < length cs"
proof -
  from assms obtain ev1 q cs1 ev2 where l: "listen g w cs = (ev1, Returns q, cs1)"
    and r: "handle_query g w k q cs1 = (ev2, Returns c, cs')"
    unfolding loop_body_def by (rule bind_Returns)
  have "length cs' \<le> length cs1"
    using keepsD[OF keeps_handle_query r] .
  then show ?thesis
    using listen_consumes[OF l] by simp
qed

text \<open>
  Lines 192 to 237, \<^verbatim>\<open>while True\<close>: passes through the body until one breaks, raises, or
  waits for a capture that the run does not have.
\<close>

function ai_loop :: "globals \<Rightarrow> world \<Rightarrow> string \<Rightarrow> unit io" where
  "ai_loop g w api_key cs =
     (case loop_body g w api_key cs of
        (ev, Returns Continue, cs') \<Rightarrow>
          (case ai_loop g w api_key cs' of (ev', r, cs'') \<Rightarrow> (ev @ ev', r, cs''))
      | (ev, Returns Break, cs') \<Rightarrow> (ev, Returns (), cs')
      | (ev, Raises e, cs') \<Rightarrow> (ev, Raises e, cs')
      | (ev, Awaits, cs') \<Rightarrow> (ev, Awaits, cs'))"
  by pat_completeness auto
termination
  by (relation "measure (\<lambda>(g, w, api_key, cs). length cs)")
     (auto dest: loop_body_consumes[OF sym])

declare ai_loop.simps [simp del]

definition ai_talking_friend :: "globals \<Rightarrow> world \<Rightarrow> string \<Rightarrow> unit io" where
  "ai_talking_friend g w api_key =
     io_then
       (print_and_speak g w
          ''Hi, I'm Miehab, your personal voice assistant. How can I help you today?'')
       (ai_loop g w api_key)"

section \<open>Facts about functions that do not listen\<close>

lemma detachedI:
  assumes "\<And>cs. m cs = (ev, r, cs)" and "r \<noteq> Awaits"
  shows "detached m"
  using assms by (simp add: detached_def events_of_def result_of_def)

lemma detached_run: "detached m \<Longrightarrow> m cs = (events_of m, result_of m, cs)"
  by (simp add: detached_def)

lemma returns_detached: "returns m \<Longrightarrow> detached m"
  by (simp add: returns_def)

lemma returns_run: "returns m \<Longrightarrow> \<exists>x. result_of m = Returns x \<and> (\<forall>cs. m cs = (events_of m, Returns x, cs))"
  by (metis detached_run returns_def)

lemma returns_unit_run:
  fixes m :: "unit io"
  shows "returns m \<Longrightarrow> m cs = (events_of m, Returns (), cs)"
  using returns_run[of m] by auto

lemma returnsI:
  assumes "\<And>cs. m cs = (ev, Returns x, cs)"
  shows "returns m"
  using assms by (simp add: returns_def detached_def events_of_def result_of_def)

lemma returns_return: "returns (io_return x)"
  by (rule returnsI) (simp add: io_return_def)

lemma returns_emit: "returns (emit e)"
  by (rule returnsI) (simp add: emit_def)

lemma detached_raise: "detached (io_raise e)"
  by (rule detachedI[where r = "Raises e"]) (simp_all add: io_raise_def)

lemma detached_call: "detached (call f e)"
  by (rule detachedI[where r = "case f of None \<Rightarrow> Returns () | Some x \<Rightarrow> Raises x"])
     (simp_all add: call_def split: option.splits)

lemma detached_call_value: "detached (call_value v e)"
  by (rule detachedI[where r = "case v of Inl x \<Rightarrow> Raises x | Inr y \<Rightarrow> Returns y"])
     (simp_all add: call_value_def split: sum.splits)

lemma detached_of_sum: "detached (io_of_sum v)"
  by (cases v) (simp_all add: io_of_sum_def detached_raise returns_return returns_detached)

lemma detached_bind:
  assumes "detached m" and "\<And>x. detached (f x)"
  shows "detached (io_bind m f)"
proof (cases "result_of m")
  case (Returns x)
  show ?thesis
    by (rule detachedI[where ev = "events_of m @ events_of (f x)" and r = "result_of (f x)"])
       (use assms(2)[of x] in \<open>simp_all add: io_bind_def detached_run[OF assms(1)] Returns
          detached_run[OF assms(2)] detached_def\<close>)
next
  case (Raises e)
  show ?thesis
    by (rule detachedI[where ev = "events_of m" and r = "Raises e"])
       (simp_all add: io_bind_def detached_run[OF assms(1)] Raises)
next
  case Awaits
  then show ?thesis
    using assms(1) by (simp add: detached_def)
qed

lemma returns_bind:
  assumes "returns m" and "\<And>x. returns (f x)"
  shows "returns (io_bind m f)"
proof -
  obtain x where x: "\<And>cs. m cs = (events_of m, Returns x, cs)"
    using returns_run[OF assms(1)] by blast
  obtain y where y: "\<And>cs. f x cs = (events_of (f x), Returns y, cs)"
    using returns_run[OF assms(2)] by blast
  show ?thesis
    by (rule returnsI[where ev = "events_of m @ events_of (f x)" and x = y])
       (simp add: io_bind_def x y)
qed

lemma detached_then: "detached m \<Longrightarrow> detached n \<Longrightarrow> detached (io_then m n)"
  by (simp add: io_then_def detached_bind)

lemma returns_then: "returns m \<Longrightarrow> returns n \<Longrightarrow> returns (io_then m n)"
  by (simp add: io_then_def returns_bind)

lemma detached_try:
  assumes "detached m" and "\<And>e. detached (h e)"
  shows "detached (io_try m h)"
proof (cases "result_of m")
  case (Raises e)
  show ?thesis
    by (rule detachedI[where ev = "events_of m @ events_of (h e)" and r = "result_of (h e)"])
       (use assms(2)[of e] in \<open>simp_all add: io_try_def detached_run[OF assms(1)] Raises
          detached_run[OF assms(2)] detached_def\<close>)
next
  case (Returns x)
  show ?thesis
    by (rule detachedI[where ev = "events_of m" and r = "Returns x"])
       (simp_all add: io_try_def detached_run[OF assms(1)] Returns)
next
  case Awaits
  then show ?thesis
    using assms(1) by (simp add: detached_def)
qed

lemma returns_try:
  assumes "detached m" and "\<And>e. returns (h e)"
  shows "returns (io_try m h)"
proof (cases "result_of m")
  case (Raises e)
  obtain y where y: "\<And>cs. h e cs = (events_of (h e), Returns y, cs)"
    using returns_run[OF assms(2)] by blast
  show ?thesis
    by (rule returnsI[where ev = "events_of m @ events_of (h e)" and x = y])
       (simp add: io_try_def detached_run[OF assms(1)] Raises y)
next
  case (Returns x)
  show ?thesis
    by (rule returnsI[where ev = "events_of m" and x = x])
       (simp add: io_try_def detached_run[OF assms(1)] Returns)
next
  case Awaits
  then show ?thesis
    using assms(1) by (simp add: detached_def)
qed

lemma returns_with:
  assumes "returns enter" and "returns m"
  shows "returns (io_with enter ex m)"
proof -
  obtain x where x: "\<And>cs. m cs = (events_of m, Returns x, cs)"
    using returns_run[OF assms(2)] by blast
  show ?thesis
    by (rule returnsI[where ev = "events_of enter @ events_of m @ [ex]" and x = x])
       (simp add: io_with_def io_bind_def returns_unit_run[OF assms(1)] x)
qed

lemma detached_seq: "(\<And>m. m \<in> set ms \<Longrightarrow> detached m) \<Longrightarrow> detached (io_seq ms)"
  by (induction ms) (simp_all add: returns_return returns_detached detached_then)

lemma returns_seq: "(\<And>m. m \<in> set ms \<Longrightarrow> returns m) \<Longrightarrow> returns (io_seq ms)"
  by (induction ms) (simp_all add: returns_return returns_then)

lemmas detached_intros =
  returns_return[THEN returns_detached] returns_emit[THEN returns_detached]
  detached_raise detached_call detached_call_value detached_of_sum
  detached_bind detached_then detached_try detached_seq

lemmas returns_intros =
  returns_return returns_emit returns_bind returns_then returns_try returns_with returns_seq

lemma returns_play_beep: "returns (play_beep w b)"
  by (simp add: play_beep_def Let_def returns_intros detached_intros)

lemma returns_speak_try: "returns (speak_try g w t)"
  unfolding speak_try_def device_def
  by (intro returns_intros) (auto simp: returns_intros detached_intros split: option.splits)

lemma returns_speak: "returns (speak g w t)"
  by (simp add: speak_def returns_intros returns_speak_try)

lemma returns_print_and_speak: "returns (print_and_speak g w t)"
  by (simp add: print_and_speak_def returns_intros returns_speak)

lemma returns_listen_except: "returns (listen_except g w e)"
  unfolding listen_except_def
  by (cases e)
     (simp_all add: returns_intros returns_speak returns_print_and_speak returns_play_beep)

lemma returns_get_weather: "returns (get_weather w c k)"
  by (simp add: get_weather_def Let_def returns_intros detached_intros)

lemma returns_get_wikipedia_summary: "returns (get_wikipedia_summary w q)"
  unfolding get_wikipedia_summary_def
  by (intro returns_intros detached_intros) (simp_all add: returns_intros split: exc.splits)

lemma returns_generate_ai_response: "returns (generate_ai_response g w p)"
  by (simp add: generate_ai_response_def returns_intros detached_intros)

lemma detached_with:
  assumes "detached enter" and "detached m"
  shows "detached (io_with enter ex m)"
  unfolding io_with_def
proof (rule detached_bind[OF assms(1)])
  fix u :: unit
  let ?body = "\<lambda>cs. case m cs of
         (ev, Returns x, cs') \<Rightarrow> (ev @ [ex], Returns x, cs')
       | (ev, Raises e, cs') \<Rightarrow> (ev @ [ex], Raises e, cs')
       | (ev, Awaits, cs') \<Rightarrow> (ev, Awaits, cs')"
  show "detached ?body"
  proof (cases "result_of m")
    case (Returns x)
    show ?thesis
      by (rule detachedI[where ev = "events_of m @ [ex]" and r = "Returns x"])
         (simp_all add: detached_run[OF assms(2)] Returns)
  next
    case (Raises e)
    show ?thesis
      by (rule detachedI[where ev = "events_of m @ [ex]" and r = "Raises e"])
         (simp_all add: detached_run[OF assms(2)] Raises)
  next
    case Awaits
    then show ?thesis
      using assms(2) by (simp add: detached_def)
  qed
qed

lemma detached_listen_to: "detached (listen_to g w c)"
  unfolding listen_to_def
  by (intro detached_with detached_intros
        returns_detached[OF returns_play_beep] returns_detached[OF returns_listen_except])

section \<open>Which events a function can make\<close>

lemma emitsD: "emits P m \<Longrightarrow> m cs = (ev, r, cs') \<Longrightarrow> list_all P ev"
  unfolding emits_def by blast

lemma emits_events_of: "emits P m \<Longrightarrow> list_all P (events_of m)"
  unfolding events_of_def by (cases "m []") (auto dest: emitsD)

lemma emits_return: "emits P (io_return x)"
  by (simp add: emits_def io_return_def)

lemma emits_raise: "emits P (io_raise x)"
  by (simp add: emits_def io_raise_def)

lemma emits_emit: "P e \<Longrightarrow> emits P (emit e)"
  by (auto simp add: emits_def emit_def)

lemma emits_call: "P e \<Longrightarrow> emits P (call f e)"
  by (auto simp add: emits_def call_def)

lemma emits_call_value: "P e \<Longrightarrow> emits P (call_value f e)"
  by (auto simp add: emits_def call_value_def)

lemma emits_of_sum: "emits P (io_of_sum v)"
  by (cases v) (simp_all add: io_of_sum_def emits_return emits_raise)

lemma emits_bind:
  assumes "emits P m" and "\<And>x. emits P (f x)"
  shows "emits P (io_bind m f)"
  unfolding emits_def
proof (intro allI impI)
  fix cs ev r cs'
  assume h: "io_bind m f cs = (ev, r, cs')"
  obtain ev1 r1 cs1 where m: "m cs = (ev1, r1, cs1)"
    by (cases "m cs") auto
  have l1: "list_all P ev1"
    using emitsD[OF assms(1) m] .
  show "list_all P ev"
  proof (cases r1)
    case (Returns x)
    obtain ev2 r2 cs2 where f: "f x cs1 = (ev2, r2, cs2)"
      by (cases "f x cs1") auto
    have "list_all P ev2"
      using emitsD[OF assms(2) f] .
    moreover have "ev = ev1 @ ev2"
      using h m f Returns by (simp add: io_bind_def)
    ultimately show ?thesis
      using l1 by simp
  next
    case (Raises e)
    then show ?thesis
      using h m l1 by (auto simp add: io_bind_def)
  next
    case Awaits
    then show ?thesis
      using h m l1 by (auto simp add: io_bind_def)
  qed
qed

lemma emits_then: "emits P m \<Longrightarrow> emits P n \<Longrightarrow> emits P (io_then m n)"
  by (simp add: io_then_def emits_bind)

lemma emits_try:
  assumes "emits P m" and "\<And>e. emits P (h e)"
  shows "emits P (io_try m h)"
  unfolding emits_def
proof (intro allI impI)
  fix cs ev r cs'
  assume t: "io_try m h cs = (ev, r, cs')"
  obtain ev1 r1 cs1 where m: "m cs = (ev1, r1, cs1)"
    by (cases "m cs") auto
  have l1: "list_all P ev1"
    using emitsD[OF assms(1) m] .
  show "list_all P ev"
  proof (cases r1)
    case (Raises e)
    obtain ev2 r2 cs2 where f: "h e cs1 = (ev2, r2, cs2)"
      by (cases "h e cs1") auto
    have "list_all P ev2"
      using emitsD[OF assms(2) f] .
    moreover have "ev = ev1 @ ev2"
      using t m f Raises by (simp add: io_try_def)
    ultimately show ?thesis
      using l1 by simp
  next
    case (Returns x)
    then show ?thesis
      using t m l1 by (auto simp add: io_try_def)
  next
    case Awaits
    then show ?thesis
      using t m l1 by (auto simp add: io_try_def)
  qed
qed

lemma emits_with:
  assumes "emits P enter" and "emits P m" and "P ex"
  shows "emits P (io_with enter ex m)"
  unfolding io_with_def
proof (rule emits_bind[OF assms(1)])
  fix u :: unit
  show "emits P (\<lambda>cs. case m cs of
         (ev, Returns x, cs') \<Rightarrow> (ev @ [ex], Returns x, cs')
       | (ev, Raises e, cs') \<Rightarrow> (ev @ [ex], Raises e, cs')
       | (ev, Awaits, cs') \<Rightarrow> (ev, Awaits, cs'))"
    unfolding emits_def
  proof (intro allI impI)
    fix cs ev r cs'
    assume h: "(case m cs of
         (ev, Returns x, cs') \<Rightarrow> (ev @ [ex], Returns x, cs')
       | (ev, Raises e, cs') \<Rightarrow> (ev @ [ex], Raises e, cs')
       | (ev, Awaits, cs') \<Rightarrow> (ev, Awaits, cs')) = (ev, r, cs')"
    obtain ev1 r1 cs1 where m: "m cs = (ev1, r1, cs1)"
      by (cases "m cs") auto
    have "list_all P ev1"
      using emitsD[OF assms(2) m] .
    then show "list_all P ev"
      using h m assms(3) by (cases r1) auto
  qed
qed

lemma emits_seq: "(\<And>m. m \<in> set ms \<Longrightarrow> emits P m) \<Longrightarrow> emits P (io_seq ms)"
  by (induction ms) (simp_all add: emits_return emits_then)

lemmas emits_intros =
  emits_return emits_raise emits_emit emits_call emits_call_value emits_of_sum
  emits_bind emits_then emits_try emits_with emits_seq

lemma emits_speak_try: "emits inner (speak_try g w t)"
  unfolding speak_try_def device_def
  by (intro emits_intros) (auto simp: inner_def emits_intros split: option.splits)

lemma lookups_none: "list_all no_lookup es \<Longrightarrow> lookups es = []"
  by (induction es) (simp_all add: lookups_def no_lookup_def)

lemma lookups_append: "lookups (xs @ ys) = lookups xs @ lookups ys"
  by (simp add: lookups_def)

lemma emits_speak: "emits no_lookup (speak g w t)"
  unfolding speak_def speak_try_def device_def
  by (intro emits_intros) (auto simp: no_lookup_def emits_intros split: option.splits)

lemma emits_print_and_speak: "emits no_lookup (print_and_speak g w t)"
  by (simp add: print_and_speak_def emits_intros emits_speak no_lookup_def)

lemma emits_play_beep: "emits no_lookup (play_beep w b)"
  by (simp add: play_beep_def Let_def emits_intros no_lookup_def)

lemma emits_listen_except: "emits no_lookup (listen_except g w e)"
  unfolding listen_except_def
  by (cases e)
     (simp_all add: emits_intros emits_speak emits_print_and_speak emits_play_beep no_lookup_def)

lemma emits_listen_to: "emits no_lookup (listen_to g w c)"
  unfolding listen_to_def
  by (intro emits_intros emits_play_beep emits_listen_except) (simp_all add: no_lookup_def)

lemma lookups_speak: "lookups (events_of (speak g w t)) = []"
  by (intro lookups_none emits_events_of emits_speak)

lemma lookups_play_beep: "lookups (events_of (play_beep w b)) = []"
  by (intro lookups_none emits_events_of emits_play_beep)

lemma lookups_listen_to: "lookups (events_of (listen_to g w c)) = []"
  by (intro lookups_none emits_events_of emits_listen_to)

section \<open>Speaking\<close>

lemma speak_events:
  "events_of (speak g w t) =
     Print (''[SPEAK] Attempting to speak: '' @ take 50 t @ ''...'') # Acquire
       # events_of (speak_try g w t) @ [Release]"
proof -
  have "speak g w t [] =
     (Print (''[SPEAK] Attempting to speak: '' @ take 50 t @ ''...'') # Acquire
        # events_of (speak_try g w t) @ [Release], Returns (), [])"
    by (simp add: speak_def io_then_def io_bind_def emit_def io_with_def
        returns_unit_run[OF returns_speak_try])
  then show ?thesis
    by (simp add: events_of_def[of "speak g w t"])
qed

lemma speak_run: "speak g w t cs = (events_of (speak g w t), Returns (), cs)"
  by (rule returns_unit_run[OF returns_speak])

lemma print_and_speak_run:
  "print_and_speak g w t cs = (Print t # events_of (speak g w t), Returns (), cs)"
  by (simp add: print_and_speak_def io_then_def io_bind_def emit_def speak_run)

lemma play_beep_run: "play_beep w b cs = (events_of (play_beep w b), Returns (), cs)"
  by (rule returns_unit_run[OF returns_play_beep])

lemma guarded_inner: "list_all inner es \<Longrightarrow> guarded True (es @ rest) = guarded True rest"
  by (induction es) (simp_all add: inner_def)

lemma guarded_append: "guarded held xs \<Longrightarrow> guarded False ys \<Longrightarrow> guarded held (xs @ ys)"
  by (induction xs arbitrary: held) (auto split: if_splits)

lemma guarded_speak: "guarded False (events_of (speak g w t))"
  by (simp add: speak_events guarded_inner[OF emits_events_of[OF emits_speak_try]])

text \<open>
  C2. For every setting of the globals, every world (whatever calls to the speech
  device raise) and every text, \<^verbatim>\<open>speak\<close> returns normally and leaves the captures
  alone; it prints, takes the lock, runs the guarded \<^verbatim>\<open>try\<close> statement and gives the
  lock back; in its trace the device is touched only while the lock is held and the
  lock is free at the end, and so it is for two calls one after the other.
\<close>

theorem speak_holds_lock_and_returns:
  "speak g w text cs = (events_of (speak g w text), Returns (), cs)
   \<and> events_of (speak g w text) =
       Print (''[SPEAK] Attempting to speak: '' @ take 50 text @ ''...'') # Acquire
         # events_of (speak_try g w text) @ [Release]
   \<and> list_all (\<lambda>e. e \<noteq> Acquire \<and> e \<noteq> Release) (events_of (speak_try g w text))
   \<and> guarded False (events_of (speak g w text))
   \<and> guarded False (events_of (speak g w text) @ events_of (speak g w text'))"
proof (intro conjI)
  show "speak g w text cs = (events_of (speak g w text), Returns (), cs)"
    by (rule speak_run)
  show "events_of (speak g w text) =
       Print (''[SPEAK] Attempting to speak: '' @ take 50 text @ ''...'') # Acquire
         # events_of (speak_try g w text) @ [Release]"
    by (rule speak_events)
  have "list_all inner (events_of (speak_try g w text))"
    by (rule emits_events_of[OF emits_speak_try])
  then show "list_all (\<lambda>e. e \<noteq> Acquire \<and> e \<noteq> Release) (events_of (speak_try g w text))"
    by (simp add: list_all_iff inner_def)
  show "guarded False (events_of (speak g w text))"
    by (rule guarded_speak)
  show "guarded False (events_of (speak g w text) @ events_of (speak g w text'))"
    by (rule guarded_append[OF guarded_speak guarded_speak])
qed

lemma speak_failing_device:
  "speak pyttsx3_globals foul_world ''Hello'' [] =
     ([Print ''[SPEAK] Attempting to speak: Hello...'', Acquire,
       EngineInit ''sapi5'', SetProperty ''rate'' (JInt 160),
       SetProperty ''volume'' (JFloat ''1.0''), SetProperty ''voice'' (JStr ''david''),
       Say ''Hello'', RunAndWait,
       PrintExc ''[SPEAK ERROR] '' (OtherException ''no audio''), Traceback,
       Release], Returns (), [])"
  by (simp add: speak_def speak_try_def device_def pyttsx3_globals_def foul_world_def
      io_then_def io_bind_def io_with_def io_try_def emit_def call_def io_return_def)

theorem speak_holds_lock_and_returns_example:
  "speak pyttsx3_globals foul_world ''Hello'' [] =
     ([Print ''[SPEAK] Attempting to speak: Hello...'', Acquire,
       EngineInit ''sapi5'', SetProperty ''rate'' (JInt 160),
       SetProperty ''volume'' (JFloat ''1.0''), SetProperty ''voice'' (JStr ''david''),
       Say ''Hello'', RunAndWait,
       PrintExc ''[SPEAK ERROR] '' (OtherException ''no audio''), Traceback,
       Release], Returns (), [])
   \<and> guarded False (events_of (speak pyttsx3_globals foul_world ''Hello''))"
proof
  show "speak pyttsx3_globals foul_world ''Hello'' [] =
     ([Print ''[SPEAK] Attempting to speak: Hello...'', Acquire,
       EngineInit ''sapi5'', SetProperty ''rate'' (JInt 160),
       SetProperty ''volume'' (JFloat ''1.0''), SetProperty ''voice'' (JStr ''david''),
       Say ''Hello'', RunAndWait,
       PrintExc ''[SPEAK ERROR] '' (OtherException ''no audio''), Traceback,
       Release], Returns (), [])"
    by (rule speak_failing_device)
  show "guarded False (events_of (speak pyttsx3_globals foul_world ''Hello''))"
    using speak_holds_lock_and_returns[of pyttsx3_globals foul_world "''Hello''" "[]"]
    by blast
qed

section \<open>Facts about text\<close>

lemma startswith_iff: "startswith s p \<longleftrightarrow> (\<exists>suf. s = p @ suf)"
  by (induction s p rule: startswith.induct) auto

lemma contains_iff: "contains sub s \<longleftrightarrow> (\<exists>pre suf. s = pre @ sub @ suf)"
proof (induction s)
  case Nil
  then show ?case by auto
next
  case (Cons c cs)
  show ?case
  proof
    assume "contains sub (c # cs)"
    then consider "startswith (c # cs) sub" | "contains sub cs"
      by auto
    then show "\<exists>pre suf. c # cs = pre @ sub @ suf"
    proof cases
      case 1
      then obtain suf where "c # cs = sub @ suf"
        by (auto simp: startswith_iff)
      then have "c # cs = [] @ sub @ suf"
        by simp
      then show ?thesis
        by blast
    next
      case 2
      then obtain pre suf where "cs = pre @ sub @ suf"
        using Cons.IH by auto
      then have "c # cs = (c # pre) @ sub @ suf"
        by simp
      then show ?thesis
        by blast
    qed
  next
    assume "\<exists>pre suf. c # cs = pre @ sub @ suf"
    then obtain pre suf where e: "c # cs = pre @ sub @ suf"
      by blast
    show "contains sub (c # cs)"
    proof (cases pre)
      case Nil
      then have "startswith (c # cs) sub"
        using e by (auto simp: startswith_iff)
      then show ?thesis
        by simp
    next
      case (Cons p ps)
      then have "cs = ps @ sub @ suf"
        using e by simp
      then have "contains sub cs"
        using Cons.IH by blast
      then show ?thesis
        by simp
    qed
  qed
qed

lemma contains_subset: "contains sub s \<Longrightarrow> set sub \<subseteq> set s"
  by (auto simp: contains_iff)

lemma lower_append: "lower (a @ b) = lower a @ lower b"
  by (simp add: lower_def)

lemma lower_char_idem: "lower_char (lower_char c) = lower_char c"
  by (auto simp: lower_char_def case_tables)

lemma lower_idem: "lower (lower s) = lower s"
  by (simp add: lower_def lower_char_idem)

lemma lower_char_not_W: "lower_char c \<noteq> CHR ''W''"
  by (auto simp: lower_char_def case_tables)

text \<open>
  The first test of line 215 looks for a capital W in a text that was just put in lower
  case, so it never holds.
\<close>

lemma Wikipedia_never_in_lower: "\<not> contains ''Wikipedia'' (lower u)"
proof
  assume "contains ''Wikipedia'' (lower u)"
  then have "CHR ''W'' \<in> set (lower u)"
    using contains_subset by fastforce
  then obtain c where "CHR ''W'' = lower_char c"
    by (auto simp: lower_def)
  then show False
    using lower_char_not_W[of c] by simp
qed

lemma contains_lower_any_case:
  "lower v = t \<Longrightarrow> contains t (lower (pre @ v @ suf))"
  unfolding contains_iff lower_append by blast

section \<open>Listening\<close>

lemma lookups_Cons: "lookups (e # es) = (if is_lookup e then e # lookups es else lookups es)"
  by (simp add: lookups_def)

lemma lookups_Nil: "lookups [] = []"
  by (simp add: lookups_def)

lemma listen_nil: "listen g w [] = ([], Awaits, [])"
  by (simp add: listen_def io_bind_def next_capture_def)

lemma listen_to_run:
  "listen_to g w c cs = (events_of (listen_to g w c), result_of (listen_to g w c), cs)"
  by (rule detached_run[OF detached_listen_to])

lemma listen_cons:
  "listen g w (c # cs) = (events_of (listen_to g w c), result_of (listen_to g w c), cs)"
  by (simp add: listen_def io_bind_def next_capture_def listen_to_run)

lemma listen_to_heard:
  "listen_to g w (heard u) cs =
     ([MicOpen, AdjustNoise, Print ''Listening...''] @ events_of (play_beep w True)
        @ [RecordAudio] @ events_of (play_beep w False)
        @ [Print ''Processing...'', Recognize, Print (''You said: '' @ u), MicClose],
      Returns u, cs)"
  by (simp add: listen_to_def heard_def io_with_def io_bind_def io_then_def io_try_def
      call_def call_value_def emit_def io_return_def play_beep_run)

lemma result_listen_to_heard: "result_of (listen_to g w (heard u)) = Returns u"
  by (simp add: result_of_def[of "listen_to g w (heard u)"] listen_to_heard)

lemma listen_heard:
  "listen g w (heard u # cs) = (events_of (listen_to g w (heard u)), Returns u, cs)"
  by (simp add: listen_cons result_listen_to_heard)

text \<open>The two example settings, evaluated.\<close>

lemma fair_beep: "events_of (play_beep fair_world b) = []"
  by (simp add: events_of_def play_beep_def fair_world_def io_return_def)

lemma fair_speak:
  "events_of (speak win32_globals fair_world t) =
     [Print (''[SPEAK] Attempting to speak: '' @ take 50 t @ ''...''), Acquire, SapiSpeak t,
      Print ''[SPEAK] Speech completed (WIN32)'', Release]"
proof -
  have "speak_try win32_globals fair_world t [] =
      ([SapiSpeak t, Print ''[SPEAK] Speech completed (WIN32)''], Returns (), [])"
    by (simp add: speak_try_def device_def win32_globals_def fair_world_def
        io_then_def io_bind_def io_try_def emit_def call_def io_return_def)
  then have "events_of (speak_try win32_globals fair_world t) =
      [SapiSpeak t, Print ''[SPEAK] Speech completed (WIN32)'']"
    by (simp add: events_of_def)
  then show ?thesis
    by (simp add: speak_events)
qed

lemma fair_listen_heard:
  "events_of (listen_to win32_globals fair_world (heard u)) =
     [MicOpen, AdjustNoise, Print ''Listening...'', RecordAudio, Print ''Processing...'',
      Recognize, Print (''You said: '' @ u), MicClose]"
  by (simp add: events_of_def[of "listen_to win32_globals fair_world (heard u)"]
      listen_to_heard fair_beep)

section \<open>When listening fails\<close>

lemma listen_except_run:
  "listen_except g w e cs =
     (events_of (play_beep w False)
        @ (case e of
             UnknownValueError \<Rightarrow>
               Print ''Sorry, I didn't catch that. Could you repeat?''
                 # events_of (speak g w ''Sorry, I didn't catch that. Could you repeat?'')
           | RequestError \<Rightarrow>
               Print ''There seems to be an internet issue. Please check your connection.''
                 # events_of (speak g w
                     ''There seems to be an internet issue. Please check your connection.'')
           | _ \<Rightarrow>
               PrintExc ''Error: '' e
                 # events_of (speak g w ''Something went wrong. Could you try again?'')),
      Returns '''', cs)"
  by (cases e)
     (simp_all add: listen_except_def io_then_def io_bind_def io_return_def emit_def
        play_beep_run print_and_speak_run speak_run)

lemma listen_to_not_recorded:
  assumes "mic_fault c = None" and "noise_fault c = None" and "audio_fault c = Some e"
  shows "listen_to g w c cs =
     ([MicOpen, AdjustNoise, Print ''Listening...''] @ events_of (play_beep w True)
        @ [RecordAudio] @ fst (listen_except g w e []) @ [MicClose],
      Returns '''', cs)"
  by (simp add: listen_to_def assms io_with_def io_bind_def io_then_def io_try_def
      call_def emit_def play_beep_run listen_except_run)

lemma listen_to_not_recognized:
  assumes "mic_fault c = None" and "noise_fault c = None" and "audio_fault c = None"
    and "transcript c = Inl e"
  shows "listen_to g w c cs =
     ([MicOpen, AdjustNoise, Print ''Listening...''] @ events_of (play_beep w True)
        @ [RecordAudio] @ events_of (play_beep w False) @ [Print ''Processing...'', Recognize]
        @ fst (listen_except g w e []) @ [MicClose],
      Returns '''', cs)"
  by (simp add: listen_to_def assms io_with_def io_bind_def io_then_def io_try_def
      call_def call_value_def emit_def play_beep_run listen_except_run)

lemma listen_to_no_microphone:
  assumes "mic_fault c = Some e"
  shows "listen_to g w c cs = ([MicOpen], Raises e, cs)"
  by (simp add: listen_to_def assms io_with_def io_bind_def call_def)

lemma listen_to_no_noise_level:
  assumes "mic_fault c = None" and "noise_fault c = Some e"
  shows "listen_to g w c cs = ([MicOpen, AdjustNoise, MicClose], Raises e, cs)"
  by (simp add: listen_to_def assms io_with_def io_bind_def io_then_def call_def)

lemma listen_run: "listen g w (c # cs) = listen_to g w c cs"
  by (simp add: listen_cons listen_to_run)

text \<open>
  C3, the claim as stated fails. When the wait for speech times out
  (\<^verbatim>\<open>WaitTimeoutError\<close>, raised by \<^verbatim>\<open>recognizer.listen\<close>), \<^verbatim>\<open>listen\<close> speaks the generic
  apology and not ``Sorry, I didn't catch that''. When the microphone cannot be opened,
  \<^verbatim>\<open>listen\<close> raises and says nothing.
\<close>

theorem timeout_gets_the_generic_apology:
  "listen win32_globals fair_world [not_recorded WaitTimeoutError] =
     ([MicOpen, AdjustNoise, Print ''Listening...'', RecordAudio,
       PrintExc ''Error: '' WaitTimeoutError,
       Print ''[SPEAK] Attempting to speak: Something went wrong. Could you try again?...'',
       Acquire, SapiSpeak ''Something went wrong. Could you try again?'',
       Print ''[SPEAK] Speech completed (WIN32)'', Release, MicClose],
      Returns '''', [])
   \<and> SapiSpeak ''Sorry, I didn't catch that. Could you repeat?''
        \<notin> set (fst (listen win32_globals fair_world [not_recorded WaitTimeoutError]))
   \<and> listen win32_globals fair_world [no_microphone (OtherException ''no input device'')] =
       ([MicOpen], Raises (OtherException ''no input device''), [])"
proof -
  have a: "listen win32_globals fair_world [not_recorded WaitTimeoutError] =
     ([MicOpen, AdjustNoise, Print ''Listening...'', RecordAudio,
       PrintExc ''Error: '' WaitTimeoutError,
       Print ''[SPEAK] Attempting to speak: Something went wrong. Could you try again?...'',
       Acquire, SapiSpeak ''Something went wrong. Could you try again?'',
       Print ''[SPEAK] Speech completed (WIN32)'', Release, MicClose],
      Returns '''', [])"
    by (simp add: listen_run listen_to_not_recorded not_recorded_def listen_except_run
        fair_beep fair_speak)
  have b: "listen win32_globals fair_world [no_microphone (OtherException ''no input device'')] =
       ([MicOpen], Raises (OtherException ''no input device''), [])"
    by (simp add: listen_run listen_to_no_microphone no_microphone_def)
  show ?thesis
    by (simp add: a b)
qed

text \<open>
  C3, amended. \<open>c\<close> is the capture that this call of \<^verbatim>\<open>listen\<close> meets, and the
  microphone opens and the noise level is measured. If recording raises \<open>e\<close>, or
  recording succeeds and the recogniser raises \<open>e\<close>, then \<^verbatim>\<open>listen\<close> returns the empty
  text, having played the closing beep and spoken the apology that goes with the class
  of \<open>e\<close>: ``didn't catch that'' for \<^verbatim>\<open>UnknownValueError\<close>, the connection message for
  \<^verbatim>\<open>RequestError\<close>, and for every other exception, the timeout of the wait included, the
  message that something went wrong. If opening the microphone or measuring the noise
  raises, \<^verbatim>\<open>listen\<close> raises that exception and speaks nothing.
\<close>

theorem listen_failure_is_spoken_by_class:
  assumes "mic_fault c = None" and "noise_fault c = None"
    and "audio_fault c = Some e \<or> (audio_fault c = None \<and> transcript c = Inl e)"
  shows "listen g w (c # rest) =
     ([MicOpen, AdjustNoise, Print ''Listening...''] @ events_of (play_beep w True)
        @ RecordAudio
        # (if audio_fault c = None
           then events_of (play_beep w False) @ [Print ''Processing...'', Recognize] else [])
        @ events_of (play_beep w False)
        @ (case e of
             UnknownValueError \<Rightarrow>
               Print ''Sorry, I didn't catch that. Could you repeat?''
                 # events_of (speak g w ''Sorry, I didn't catch that. Could you repeat?'')
           | RequestError \<Rightarrow>
               Print ''There seems to be an internet issue. Please check your connection.''
                 # events_of (speak g w
                     ''There seems to be an internet issue. Please check your connection.'')
           | _ \<Rightarrow>
               PrintExc ''Error: '' e
                 # events_of (speak g w ''Something went wrong. Could you try again?''))
        @ [MicClose],
      Returns '''', rest)
   \<and> (\<forall>c' x. mic_fault c' = Some x \<longrightarrow>
          listen g w (c' # rest) = ([MicOpen], Raises x, rest))
   \<and> (\<forall>c' x. mic_fault c' = None \<and> noise_fault c' = Some x \<longrightarrow>
          listen g w (c' # rest) = ([MicOpen, AdjustNoise, MicClose], Raises x, rest))"
proof (intro conjI allI impI)
  show "listen g w (c # rest) =
     ([MicOpen, AdjustNoise, Print ''Listening...''] @ events_of (play_beep w True)
        @ RecordAudio
        # (if audio_fault c = None
           then events_of (play_beep w False) @ [Print ''Processing...'', Recognize] else [])
        @ events_of (play_beep w False)
        @ (case e of
             UnknownValueError \<Rightarrow>
               Print ''Sorry, I didn't catch that. Could you repeat?''
                 # events_of (speak g w ''Sorry, I didn't catch that. Could you repeat?'')
           | RequestError \<Rightarrow>
               Print ''There seems to be an internet issue. Please check your connection.''
                 # events_of (speak g w
                     ''There seems to be an internet issue. Please check your connection.'')
           | _ \<Rightarrow>
               PrintExc ''Error: '' e
                 # events_of (speak g w ''Something went wrong. Could you try again?''))
        @ [MicClose],
      Returns '''', rest)"
    using assms(3)
  proof
    assume "audio_fault c = Some e"
    then show ?thesis
      by (simp add: listen_run listen_to_not_recorded assms(1,2) listen_except_run)
  next
    assume "audio_fault c = None \<and> transcript c = Inl e"
    then show ?thesis
      by (simp add: listen_run listen_to_not_recognized assms(1,2) listen_except_run)
  qed
  show "listen g w (c' # rest) = ([MicOpen], Raises x, rest)" if "mic_fault c' = Some x" for c' x
    using that by (simp add: listen_run listen_to_no_microphone)
  show "listen g w (c' # rest) = ([MicOpen, AdjustNoise, MicClose], Raises x, rest)"
    if "mic_fault c' = None \<and> noise_fault c' = Some x" for c' x
    using that by (simp add: listen_run listen_to_no_noise_level)
qed

theorem listen_failure_is_spoken_by_class_example:
  "mic_fault (not_recognized RequestError) = None
   \<and> noise_fault (not_recognized RequestError) = None
   \<and> audio_fault (not_recognized RequestError) = None
   \<and> transcript (not_recognized RequestError) = Inl RequestError
   \<and> mic_fault (no_microphone IndexError) = Some IndexError
   \<and> listen win32_globals fair_world [not_recognized RequestError, heard ''later''] =
       ([MicOpen, AdjustNoise, Print ''Listening...'', RecordAudio, Print ''Processing...'',
         Recognize,
         Print ''There seems to be an internet issue. Please check your connection.'',
         Print ''[SPEAK] Attempting to speak: There seems to be an internet issue. Please check ...'',
         Acquire,
         SapiSpeak ''There seems to be an internet issue. Please check your connection.'',
         Print ''[SPEAK] Speech completed (WIN32)'', Release, MicClose],
        Returns '''', [heard ''later''])
   \<and> listen win32_globals fair_world [no_microphone IndexError, heard ''later''] =
       ([MicOpen], Raises IndexError, [heard ''later''])"
proof -
  have h: "mic_fault (not_recognized RequestError) = None"
    "noise_fault (not_recognized RequestError) = None"
    "audio_fault (not_recognized RequestError) = Some RequestError
     \<or> (audio_fault (not_recognized RequestError) = None
        \<and> transcript (not_recognized RequestError) = Inl RequestError)"
    by (simp_all add: not_recognized_def)
  have m: "mic_fault (no_microphone IndexError) = Some IndexError"
    by (simp add: no_microphone_def)
  note t = listen_failure_is_spoken_by_class[OF h, of win32_globals fair_world "[heard ''later'']"]
  have a: "listen win32_globals fair_world [not_recognized RequestError, heard ''later''] =
       ([MicOpen, AdjustNoise, Print ''Listening...'', RecordAudio, Print ''Processing...'',
         Recognize,
         Print ''There seems to be an internet issue. Please check your connection.'',
         Print ''[SPEAK] Attempting to speak: There seems to be an internet issue. Please check ...'',
         Acquire,
         SapiSpeak ''There seems to be an internet issue. Please check your connection.'',
         Print ''[SPEAK] Speech completed (WIN32)'', Release, MicClose],
        Returns [], [heard ''later''])"
    using t[THEN conjunct1] by (simp add: not_recognized_def fair_beep fair_speak)
  have b: "listen win32_globals fair_world [no_microphone IndexError, heard ''later''] =
       ([MicOpen], Raises IndexError, [heard ''later''])"
    using t[THEN conjunct2, THEN conjunct1] m by blast
  show ?thesis
    using a b m by (simp add: not_recognized_def)
qed

section \<open>The first utterance of a pass decides what the pass does\<close>

lemma loop_body_heard:
  "loop_body g w k (heard u # cs) =
     (case handle_query g w k u cs of
        (ev, r, cs') \<Rightarrow> (events_of (listen_to g w (heard u)) @ ev, r, cs'))"
  by (simp add: loop_body_def io_bind_def listen_heard)

text \<open>Lines 189 to 192: the greeting, then the loop.\<close>

lemma ai_talking_friend_greets_then_loops:
  "ai_talking_friend g w k cs =
     (case ai_loop g w k cs of
        (ev, r, cs') \<Rightarrow>
          (Print ''Hi, I'm Miehab, your personal voice assistant. How can I help you today?''
             # events_of (speak g w
                 ''Hi, I'm Miehab, your personal voice assistant. How can I help you today?'')
             @ ev, r, cs'))"
  by (simp add: ai_talking_friend_def io_then_def io_bind_def print_and_speak_run)

text \<open>Line 195: an empty result of \<^verbatim>\<open>listen\<close> only sends the loop back to listening.\<close>

lemma empty_query_continues: "handle_query g w k '''' cs = ([], Returns Continue, cs)"
  by (simp add: handle_query_def io_return_def)

lemma handle_query_bye:
  assumes "contains ''bye'' (lower u)"
  shows "handle_query g w k u cs =
     (Print ''Goodbye! Talk to you soon!'' # events_of (speak g w ''Goodbye! Talk to you soon!''),
      Returns Break, cs)"
proof -
  have "u \<noteq> []"
    using assms by (auto simp: lower_def)
  then show ?thesis
    using assms
    by (simp add: handle_query_def io_then_def io_bind_def io_return_def print_and_speak_run)
qed

text \<open>
  C4. When the utterance heard at the top of the loop contains ``bye'' in any casing,
  with anything before and after it, the loop prints and speaks the farewell and
  returns, with the later captures untouched; the run makes no lookup.
\<close>

theorem bye_ends_the_loop:
  assumes "lower v = ''bye''"
  shows "ai_loop g w k (heard (pre @ v @ suf) # rest) =
           (events_of (listen_to g w (heard (pre @ v @ suf)))
              @ Print ''Goodbye! Talk to you soon!''
              # events_of (speak g w ''Goodbye! Talk to you soon!''),
            Returns (), rest)
         \<and> lookups (fst (ai_loop g w k (heard (pre @ v @ suf) # rest))) = []"
proof -
  have c: "contains ''bye'' (lower (pre @ v @ suf))"
    using assms by (rule contains_lower_any_case)
  have b: "loop_body g w k (heard (pre @ v @ suf) # rest) =
           (events_of (listen_to g w (heard (pre @ v @ suf)))
              @ Print ''Goodbye! Talk to you soon!''
              # events_of (speak g w ''Goodbye! Talk to you soon!''),
            Returns Break, rest)"
    by (simp add: loop_body_heard handle_query_bye[OF c])
  have l: "ai_loop g w k (heard (pre @ v @ suf) # rest) =
           (events_of (listen_to g w (heard (pre @ v @ suf)))
              @ Print ''Goodbye! Talk to you soon!''
              # events_of (speak g w ''Goodbye! Talk to you soon!''),
            Returns (), rest)"
    by (subst ai_loop.simps) (simp add: b)
  show ?thesis
    by (simp add: l lookups_append lookups_Cons lookups_listen_to lookups_speak)
qed

theorem bye_ends_the_loop_example:
  "lower ''Bye'' = ''bye''
   \<and> ai_loop win32_globals fair_world ''key''
        [heard ''OK Bye, and the weather?'', heard ''never heard''] =
       ([MicOpen, AdjustNoise, Print ''Listening...'', RecordAudio, Print ''Processing...'',
         Recognize, Print ''You said: OK Bye, and the weather?'', MicClose,
         Print ''Goodbye! Talk to you soon!'',
         Print ''[SPEAK] Attempting to speak: Goodbye! Talk to you soon!...'', Acquire,
         SapiSpeak ''Goodbye! Talk to you soon!'',
         Print ''[SPEAK] Speech completed (WIN32)'', Release],
        Returns (), [heard ''never heard''])"
proof -
  have h: "lower ''Bye'' = ''bye''"
    by (simp add: lower_def lower_char_def case_tables)
  show ?thesis
    using h bye_ends_the_loop[OF h, of win32_globals fair_world "''key''" "''OK ''"
        "'', and the weather?''" "[heard ''never heard'']"]
    by (simp add: fair_listen_heard fair_speak)
qed

section \<open>How an utterance is routed\<close>

lemma handle_query_weather:
  assumes "\<not> contains ''bye'' (lower u)" and "contains ''weather'' (lower u)"
  shows "handle_query g w k u =
     io_then (weather_turn g w k)
       (io_then (print_and_speak g w ''Do you need help with anything else?'')
          (io_return Continue))"
proof -
  have "u \<noteq> []"
    using assms(2) by (auto simp: lower_def)
  then show ?thesis
    using assms by (simp add: handle_query_def)
qed

lemma handle_query_tell_me_about:
  assumes "\<not> contains ''bye'' (lower u)" and "\<not> contains ''weather'' (lower u)"
    and "contains ''tell me about'' (lower u)"
  shows "handle_query g w k u =
     io_then (wikipedia_turn g w u)
       (io_then (print_and_speak g w ''Do you need help with anything else?'')
          (io_return Continue))"
proof -
  have "u \<noteq> []"
    using assms(3) by (auto simp: lower_def)
  then show ?thesis
    using assms by (simp add: handle_query_def)
qed

lemma handle_query_otherwise:
  assumes "u \<noteq> []" and "\<not> contains ''bye'' (lower u)" and "\<not> contains ''weather'' (lower u)"
    and "\<not> contains ''tell me about'' (lower u)"
  shows "handle_query g w k u =
     io_then (chat_turn g w u)
       (io_then (print_and_speak g w ''Do you need help with anything else?'')
          (io_return Continue))"
  using assms by (simp add: handle_query_def Wikipedia_never_in_lower)

lemma lower_Wikipedia_Python: "lower ''Wikipedia Python'' = ''wikipedia python''"
  by (simp add: lower_def lower_char_def case_tables)

lemma fair_generate:
  "generate_ai_response win32_globals fair_world p cs =
     ([Generate p 100 1], Returns (strip (p @ '' and so on  '')), cs)"
  by (simp add: generate_ai_response_def win32_globals_def fair_world_def io_try_def
      io_bind_def call_value_def io_return_def)

text \<open>
  C1, at the utterance ``Wikipedia Python''. The claim routes an utterance that
  contains ``wikipedia'' to the encyclopedia. The program routes this one to the text
  generator, in every world: the test of line 215 never holds, and nothing else in the
  utterance is a trigger. In the run shown the only lookup is the call of the generator.
\<close>

theorem Wikipedia_utterance_is_answered_by_chat:
  "handle_query g w k ''Wikipedia Python'' =
     io_then (chat_turn g w ''Wikipedia Python'')
       (io_then (print_and_speak g w ''Do you need help with anything else?'')
          (io_return Continue))
   \<and> lookups (fst (loop_body win32_globals fair_world ''key'' [heard ''Wikipedia Python'']))
       = [Generate ''Wikipedia Python'' 100 1]"
proof
  show r: "handle_query g w k ''Wikipedia Python'' =
     io_then (chat_turn g w ''Wikipedia Python'')
       (io_then (print_and_speak g w ''Do you need help with anything else?'')
          (io_return Continue))" for g w k
    by (rule handle_query_otherwise) (simp_all add: lower_Wikipedia_Python)
  show "lookups (fst (loop_body win32_globals fair_world ''key'' [heard ''Wikipedia Python'']))
       = [Generate ''Wikipedia Python'' 100 1]"
    by (simp add: loop_body_heard r chat_turn_def io_then_def io_bind_def io_return_def
        print_and_speak_run fair_generate lookups_append lookups_Cons lookups_Nil
        lookups_listen_to lookups_speak)
qed

section \<open>The weather turn\<close>

lemma get_weather_run:
  "get_weather w city k cs =
     (events_of (get_weather w city k), result_of (get_weather w city k), cs)"
  by (rule detached_run[OF returns_detached[OF returns_get_weather]])

lemma get_weather_at_nil:
  "get_weather w city k [] =
     (HttpGet (weather_url city k)
        # (case http_get w (weather_url city k) of
             ConnectionFailed e \<Rightarrow> [PrintExc ''Error fetching weather data: '' e]
           | NotJson e \<Rightarrow> [PrintExc ''Error fetching weather data: '' e]
           | Body data \<Rightarrow>
               (case weather_report city data of
                  Inl e \<Rightarrow> [PrintExc ''Error fetching weather data: '' e]
                | Inr r \<Rightarrow> [])),
      Returns
        (case http_get w (weather_url city k) of
           ConnectionFailed e \<Rightarrow> ''I couldn't fetch the weather details. Please try later.''
         | NotJson e \<Rightarrow> ''I couldn't fetch the weather details. Please try later.''
         | Body data \<Rightarrow>
             (case weather_report city data of
                Inl e \<Rightarrow> ''I couldn't fetch the weather details. Please try later.''
              | Inr r \<Rightarrow> r)),
      [])"
  by (simp add: get_weather_def Let_def io_try_def io_bind_def io_then_def call_value_def
      io_of_sum_def io_raise_def io_return_def emit_def
      split: http_reply.splits sum.splits)

lemma lookups_get_weather:
  "lookups (events_of (get_weather w city k)) = [HttpGet (weather_url city k)]"
  by (simp add: events_of_def get_weather_at_nil lookups_Cons lookups_Nil
      split: http_reply.splits sum.splits)

lemma get_weather_returns: "\<exists>info. result_of (get_weather w city k) = Returns info"
  by (simp add: result_of_def get_weather_at_nil)

lemma weather_turn_silent_city:
  assumes "result_of (listen_to g w c) = Returns ''''"
  shows "weather_turn g w k (c # cs) =
     (Print ''Which city should I check?'' # events_of (speak g w ''Which city should I check?'')
        @ events_of (listen_to g w c)
        @ Print ''I couldn't understand the city name. Please try again.''
        # events_of (speak g w ''I couldn't understand the city name. Please try again.''),
      Returns (), cs)"
  by (simp add: weather_turn_def io_then_def io_bind_def print_and_speak_run listen_cons assms)

lemma weather_turn_city:
  assumes "result_of (listen_to g w c) = Returns city" and "city \<noteq> []"
    and "result_of (get_weather w city k) = Returns info"
  shows "weather_turn g w k (c # cs) =
     (Print ''Which city should I check?'' # events_of (speak g w ''Which city should I check?'')
        @ events_of (listen_to g w c)
        @ events_of (get_weather w city k)
        @ Print info # events_of (speak g w info),
      Returns (), cs)"
  using assms(2)
  by (simp add: weather_turn_def io_then_def io_bind_def print_and_speak_run listen_cons
      assms(1) get_weather_run assms(3))

lemma then_help:
  assumes "m cs = (ev, Returns (), cs')"
  shows "io_then m (io_then (print_and_speak g w ''Do you need help with anything else?'')
           (io_return Continue)) cs =
     (ev @ Print ''Do you need help with anything else?''
        # events_of (speak g w ''Do you need help with anything else?''),
      Returns Continue, cs')"
  by (simp add: io_then_def io_bind_def io_return_def print_and_speak_run assms)

text \<open>
  C5. The utterance heard at the top of the loop contains ``weather'' in any casing and
  no ``bye''; \<open>c\<close> is the capture that comes next. The pass prints and speaks the question
  for the city and listens once, to \<open>c\<close>, and up to there it has made no lookup; the
  captures after \<open>c\<close> are untouched. If that listening returns the empty text, the pass
  prints and speaks that the city was not understood, then the closing question, and
  makes no lookup at all. If it returns a city, the pass asks the weather service for
  that city, once, and speaks what \<^verbatim>\<open>get_weather\<close> returned.
\<close>

theorem weather_turn_listens_once_before_lookup:
  assumes "contains ''weather'' (lower u)" and "\<not> contains ''bye'' (lower u)"
  shows
    "(result_of (listen_to g w c) = Returns '''' \<longrightarrow>
        loop_body g w k (heard u # c # rest) =
          (events_of (listen_to g w (heard u))
             @ Print ''Which city should I check?''
             # events_of (speak g w ''Which city should I check?'')
             @ events_of (listen_to g w c)
             @ Print ''I couldn't understand the city name. Please try again.''
             # events_of (speak g w ''I couldn't understand the city name. Please try again.'')
             @ Print ''Do you need help with anything else?''
             # events_of (speak g w ''Do you need help with anything else?''),
           Returns Continue, rest)
        \<and> lookups (fst (loop_body g w k (heard u # c # rest))) = [])
     \<and> (\<forall>city info.
          result_of (listen_to g w c) = Returns city \<and> city \<noteq> ''''
            \<and> result_of (get_weather w city k) = Returns info \<longrightarrow>
          loop_body g w k (heard u # c # rest) =
            (events_of (listen_to g w (heard u))
               @ Print ''Which city should I check?''
               # events_of (speak g w ''Which city should I check?'')
               @ events_of (listen_to g w c)
               @ events_of (get_weather w city k)
               @ Print info # events_of (speak g w info)
               @ Print ''Do you need help with anything else?''
               # events_of (speak g w ''Do you need help with anything else?''),
             Returns Continue, rest)
          \<and> lookups (fst (loop_body g w k (heard u # c # rest))) = [HttpGet (weather_url city k)])
     \<and> lookups (events_of (listen_to g w (heard u))
             @ Print ''Which city should I check?''
             # events_of (speak g w ''Which city should I check?'')
             @ events_of (listen_to g w c)) = []"
proof (intro conjI impI allI)
  have h: "handle_query g w k u =
     io_then (weather_turn g w k)
       (io_then (print_and_speak g w ''Do you need help with anything else?'')
          (io_return Continue))"
    using assms by (simp add: handle_query_weather)
  show "lookups (events_of (listen_to g w (heard u))
             @ Print ''Which city should I check?''
             # events_of (speak g w ''Which city should I check?'')
             @ events_of (listen_to g w c)) = []"
    by (simp add: lookups_append lookups_Cons lookups_listen_to lookups_speak)
  {
    assume e: "result_of (listen_to g w c) = Returns ''''"
    show b: "loop_body g w k (heard u # c # rest) =
          (events_of (listen_to g w (heard u))
             @ Print ''Which city should I check?''
             # events_of (speak g w ''Which city should I check?'')
             @ events_of (listen_to g w c)
             @ Print ''I couldn't understand the city name. Please try again.''
             # events_of (speak g w ''I couldn't understand the city name. Please try again.'')
             @ Print ''Do you need help with anything else?''
             # events_of (speak g w ''Do you need help with anything else?''),
           Returns Continue, rest)"
      by (simp add: loop_body_heard h then_help[where m = "weather_turn g w k" and cs = "c # rest",
            OF weather_turn_silent_city[OF e]])
    show "lookups (fst (loop_body g w k (heard u # c # rest))) = []"
      by (simp add: b lookups_append lookups_Cons lookups_listen_to lookups_speak)
  }
  {
    fix city info
    assume a: "result_of (listen_to g w c) = Returns city \<and> city \<noteq> ''''
            \<and> result_of (get_weather w city k) = Returns info"
    then have e: "result_of (listen_to g w c) = Returns city" and n: "city \<noteq> []"
      and i: "result_of (get_weather w city k) = Returns info"
      by simp_all
    show b: "loop_body g w k (heard u # c # rest) =
            (events_of (listen_to g w (heard u))
               @ Print ''Which city should I check?''
               # events_of (speak g w ''Which city should I check?'')
               @ events_of (listen_to g w c)
               @ events_of (get_weather w city k)
               @ Print info # events_of (speak g w info)
               @ Print ''Do you need help with anything else?''
               # events_of (speak g w ''Do you need help with anything else?''),
             Returns Continue, rest)"
      by (simp add: loop_body_heard h then_help[where m = "weather_turn g w k" and cs = "c # rest",
            OF weather_turn_city[OF e n i]])
    show "lookups (fst (loop_body g w k (heard u # c # rest))) = [HttpGet (weather_url city k)]"
      by (simp add: b lookups_append lookups_Cons lookups_listen_to lookups_speak
          lookups_get_weather)
  }
qed

lemma fair_listen_not_recognized:
  "listen_to win32_globals fair_world (not_recognized UnknownValueError) cs =
     ([MicOpen, AdjustNoise, Print ''Listening...'', RecordAudio, Print ''Processing...'',
       Recognize, Print ''Sorry, I didn't catch that. Could you repeat?'',
       Print ''[SPEAK] Attempting to speak: Sorry, I didn't catch that. Could you repeat?...'',
       Acquire, SapiSpeak ''Sorry, I didn't catch that. Could you repeat?'',
       Print ''[SPEAK] Speech completed (WIN32)'', Release, MicClose],
      Returns '''', cs)"
  by (simp add: listen_to_not_recognized not_recognized_def listen_except_run fair_beep
      fair_speak)

lemma lower_weather_example: "lower ''What is the WEATHER like'' = ''what is the weather like''"
  by (simp add: lower_def lower_char_def case_tables)

theorem weather_turn_listens_once_before_lookup_example:
  "contains ''weather'' (lower ''What is the WEATHER like'')
   \<and> \<not> contains ''bye'' (lower ''What is the WEATHER like'')
   \<and> result_of (listen_to win32_globals fair_world (not_recognized UnknownValueError))
       = Returns ''''
   \<and> loop_body win32_globals fair_world ''key''
        [heard ''What is the WEATHER like'', not_recognized UnknownValueError, heard ''later''] =
       ([MicOpen, AdjustNoise, Print ''Listening...'', RecordAudio, Print ''Processing...'',
         Recognize, Print ''You said: What is the WEATHER like'', MicClose,
         Print ''Which city should I check?'',
         Print ''[SPEAK] Attempting to speak: Which city should I check?...'', Acquire,
         SapiSpeak ''Which city should I check?'',
         Print ''[SPEAK] Speech completed (WIN32)'', Release,
         MicOpen, AdjustNoise, Print ''Listening...'', RecordAudio, Print ''Processing...'',
         Recognize, Print ''Sorry, I didn't catch that. Could you repeat?'',
         Print ''[SPEAK] Attempting to speak: Sorry, I didn't catch that. Could you repeat?...'',
         Acquire, SapiSpeak ''Sorry, I didn't catch that. Could you repeat?'',
         Print ''[SPEAK] Speech completed (WIN32)'', Release, MicClose,
         Print ''I couldn't understand the city name. Please try again.'',
         Print ''[SPEAK] Attempting to speak: I couldn't understand the city name. Please try ag...'',
         Acquire, SapiSpeak ''I couldn't understand the city name. Please try again.'',
         Print ''[SPEAK] Speech completed (WIN32)'', Release,
         Print ''Do you need help with anything else?'',
         Print ''[SPEAK] Attempting to speak: Do you need help with anything else?...'',
         Acquire, SapiSpeak ''Do you need help with anything else?'',
         Print ''[SPEAK] Speech completed (WIN32)'', Release],
        Returns Continue, [heard ''later''])
   \<and> lookups (fst (loop_body win32_globals fair_world ''key''
        [heard ''What is the WEATHER like'', not_recognized UnknownValueError, heard ''later'']))
       = []"
proof -
  have h1: "contains ''weather'' (lower ''What is the WEATHER like'')"
    by (simp add: lower_weather_example)
  have h2: "\<not> contains ''bye'' (lower ''What is the WEATHER like'')"
    by (simp add: lower_weather_example)
  have h3: "result_of (listen_to win32_globals fair_world (not_recognized UnknownValueError))
       = Returns ''''"
    by (simp add: result_of_def fair_listen_not_recognized)
  have e: "events_of (listen_to win32_globals fair_world (not_recognized UnknownValueError)) =
      fst (listen_to win32_globals fair_world (not_recognized UnknownValueError) [])"
    by (simp add: events_of_def)
  note t = weather_turn_listens_once_before_lookup[OF h1 h2, of win32_globals fair_world
      "not_recognized UnknownValueError" "''key''" "[heard ''later'']", THEN conjunct1, rule_format,
      OF h3]
  show ?thesis
    using h1 h2 h3 t
    by (simp add: fair_listen_heard fair_speak e fair_listen_not_recognized lookups_Cons
        lookups_Nil)
qed

text \<open>
  C10. After an utterance with ``weather'' and no ``bye'', whatever non-empty text is
  heard at the city prompt is the city: the pass asks the weather service for exactly
  that text, speaks what \<^verbatim>\<open>get_weather\<close> returned and the closing question, and the loop
  goes on with the captures that follow. The text is not examined for ``bye'' or any
  other trigger.
\<close>

theorem city_reply_is_taken_verbatim:
  assumes "contains ''weather'' (lower u)" and "\<not> contains ''bye'' (lower u)"
    and "city \<noteq> ''''"
  shows "\<exists>info.
     result_of (get_weather w city k) = Returns info
     \<and> loop_body g w k (heard u # heard city # rest) =
         (events_of (listen_to g w (heard u))
            @ Print ''Which city should I check?''
            # events_of (speak g w ''Which city should I check?'')
            @ events_of (listen_to g w (heard city))
            @ events_of (get_weather w city k)
            @ Print info # events_of (speak g w info)
            @ Print ''Do you need help with anything else?''
            # events_of (speak g w ''Do you need help with anything else?''),
          Returns Continue, rest)
     \<and> lookups (fst (loop_body g w k (heard u # heard city # rest)))
         = [HttpGet (weather_url city k)]
     \<and> ai_loop g w k (heard u # heard city # rest) =
         (case ai_loop g w k rest of
            (ev, r, cs) \<Rightarrow> (fst (loop_body g w k (heard u # heard city # rest)) @ ev, r, cs))"
proof -
  obtain info where i: "result_of (get_weather w city k) = Returns info"
    using get_weather_returns by blast
  have h: "handle_query g w k u =
     io_then (weather_turn g w k)
       (io_then (print_and_speak g w ''Do you need help with anything else?'')
          (io_return Continue))"
    using assms(1,2) by (simp add: handle_query_weather)
  have t: "weather_turn g w k (heard city # rest) =
     (Print ''Which city should I check?'' # events_of (speak g w ''Which city should I check?'')
        @ events_of (listen_to g w (heard city))
        @ events_of (get_weather w city k)
        @ Print info # events_of (speak g w info),
      Returns (), rest)"
    using assms(3) by (intro weather_turn_city result_listen_to_heard i) simp
  have b: "loop_body g w k (heard u # heard city # rest) =
         (events_of (listen_to g w (heard u))
            @ Print ''Which city should I check?''
            # events_of (speak g w ''Which city should I check?'')
            @ events_of (listen_to g w (heard city))
            @ events_of (get_weather w city k)
            @ Print info # events_of (speak g w info)
            @ Print ''Do you need help with anything else?''
            # events_of (speak g w ''Do you need help with anything else?''),
          Returns Continue, rest)"
    by (simp add: loop_body_heard h
        then_help[where m = "weather_turn g w k" and cs = "heard city # rest", OF t])
  have l: "lookups (fst (loop_body g w k (heard u # heard city # rest)))
         = [HttpGet (weather_url city k)]"
    by (simp add: b lookups_append lookups_Cons lookups_listen_to lookups_speak
        lookups_get_weather)
  have a: "ai_loop g w k (heard u # heard city # rest) =
         (case ai_loop g w k rest of
            (ev, r, cs) \<Rightarrow> (fst (loop_body g w k (heard u # heard city # rest)) @ ev, r, cs))"
    by (subst ai_loop.simps) (simp add: b)
  show ?thesis
    using i b l a by blast
qed

lemma fair_get_weather:
  "get_weather fair_world ''bye'' ''key'' cs =
     ([HttpGet ''http://api.openweathermap.org/data/2.5/weather?q=bye&appid=key&units=metric''],
      Returns (''Bye weather: clear sky, 21.0'' @ degree @ ''C, feels like 20.5'' @ degree @ ''C.''),
      cs)"
  by (simp add: get_weather_def fair_world_def paris_answer_def weather_url_def Let_def
      io_try_def io_bind_def call_value_def io_of_sum_def io_return_def weather_report_def
      sum_bind_def subscript_key_def subscript_0_def equals_200_def py_str_def capitalize_def
      title_char_def upper_char_def lower_def lower_char_def case_tables)

theorem city_reply_is_taken_verbatim_example:
  "contains ''weather'' (lower ''weather'') \<and> \<not> contains ''bye'' (lower ''weather'')
   \<and> ''bye'' \<noteq> ''''
   \<and> result_of (get_weather fair_world ''bye'' ''key'') =
       Returns (''Bye weather: clear sky, 21.0'' @ degree @ ''C, feels like 20.5'' @ degree @ ''C.'')
   \<and> lookups (fst (loop_body win32_globals fair_world ''key''
                      [heard ''weather'', heard ''bye'', heard ''later'']))
       = [HttpGet ''http://api.openweathermap.org/data/2.5/weather?q=bye&appid=key&units=metric'']
   \<and> snd (loop_body win32_globals fair_world ''key''
             [heard ''weather'', heard ''bye'', heard ''later''])
       = (Returns Continue, [heard ''later''])"
proof -
  have h1: "contains ''weather'' (lower ''weather'')"
    by (simp add: lower_def lower_char_def case_tables)
  have h2: "\<not> contains ''bye'' (lower ''weather'')"
    by (simp add: lower_def lower_char_def case_tables)
  have h3: "''bye'' \<noteq> ''''"
    by simp
  have u: "weather_url ''bye'' ''key'' =
      ''http://api.openweathermap.org/data/2.5/weather?q=bye&appid=key&units=metric''"
    by (simp add: weather_url_def)
  have r: "result_of (get_weather fair_world ''bye'' ''key'') =
       Returns (''Bye weather: clear sky, 21.0'' @ degree @ ''C, feels like 20.5'' @ degree @ ''C.'')"
    by (simp add: result_of_def fair_get_weather)
  show ?thesis
    using h1 h2 r
      city_reply_is_taken_verbatim[OF h1 h2 h3, of fair_world "''key''" win32_globals
        "[heard ''later'']"]
    by (auto simp: u)
qed

section \<open>The weather lookup\<close>

lemma get_weather_body:
  assumes "http_get w (weather_url city k) = Body data"
  shows "get_weather w city k cs =
     (HttpGet (weather_url city k)
        # (case weather_report city data of
             Inl e \<Rightarrow> [PrintExc ''Error fetching weather data: '' e]
           | Inr r \<Rightarrow> []),
      Returns
        (case weather_report city data of
           Inl e \<Rightarrow> ''I couldn't fetch the weather details. Please try later.''
         | Inr r \<Rightarrow> r),
      cs)"
  by (simp add: get_weather_def Let_def assms io_try_def io_bind_def io_then_def
      call_value_def io_of_sum_def io_raise_def io_return_def emit_def split: sum.splits)

lemma weather_report_error:
  assumes "subscript_key data ''cod'' = Inr cod" and "\<not> equals_200 cod"
    and "subscript_key data ''message'' = Inr message"
  shows "weather_report city data = Inr (''Error: '' @ py_str message)"
  by (simp add: weather_report_def sum_bind_def assms)

text \<open>Without a \<^verbatim>\<open>message\<close> field the error answer cannot be built: the apology is returned.\<close>

lemma weather_report_error_without_message:
  assumes "subscript_key data ''cod'' = Inr cod" and "\<not> equals_200 cod"
    and "subscript_key data ''message'' = Inl e"
  shows "weather_report city data = Inl e"
  by (simp add: weather_report_def sum_bind_def assms)

lemma weather_report_paris:
  "weather_report ''paris'' paris_answer =
     Inr (''Paris weather: clear sky, 21.0'' @ degree @ ''C, feels like 20.5'' @ degree @ ''C.'')"
  by (simp add: weather_report_def paris_answer_def sum_bind_def subscript_key_def
      subscript_0_def equals_200_def py_str_def capitalize_def title_char_def upper_char_def lower_def
      lower_char_def case_tables)

text \<open>
  C6. When the weather service answers the request for ``paris'' with the document of
  the specification, \<^verbatim>\<open>get_weather\<close> returns ``Paris weather: clear sky, 21.0\<degree>C, feels
  like 20.5\<degree>C.'' (\<open>degree\<close> is the degree sign). When the answer to a request is a document
  whose \<^verbatim>\<open>cod\<close> field is not equal to 200 and which has a \<^verbatim>\<open>message\<close> field,
  \<^verbatim>\<open>get_weather\<close> returns ``Error: '' followed by that field, as \<^verbatim>\<open>str\<close> writes it; a
  message that is a string is written as it is.
\<close>

theorem get_weather_sentence_and_error:
  "(http_get w (weather_url ''paris'' k) = Body paris_answer \<longrightarrow>
      get_weather w ''paris'' k cs =
        ([HttpGet (weather_url ''paris'' k)],
         Returns (''Paris weather: clear sky, 21.0'' @ degree @ ''C, feels like 20.5''
                    @ degree @ ''C.''),
         cs))
   \<and> (\<forall>data cod message.
         http_get w (weather_url city k) = Body data
           \<and> subscript_key data ''cod'' = Inr cod \<and> \<not> equals_200 cod
           \<and> subscript_key data ''message'' = Inr message \<longrightarrow>
         get_weather w city k cs =
           ([HttpGet (weather_url city k)], Returns (''Error: '' @ py_str message), cs))
   \<and> (\<forall>m. py_str (JStr m) = m)"
proof (intro conjI allI impI)
  show "get_weather w ''paris'' k cs =
        ([HttpGet (weather_url ''paris'' k)],
         Returns (''Paris weather: clear sky, 21.0'' @ degree @ ''C, feels like 20.5''
                    @ degree @ ''C.''),
         cs)"
    if "http_get w (weather_url ''paris'' k) = Body paris_answer"
    by (simp add: get_weather_body[OF that] weather_report_paris)
  show "get_weather w city k cs =
           ([HttpGet (weather_url city k)], Returns (''Error: '' @ py_str message), cs)"
    if "http_get w (weather_url city k) = Body data
           \<and> subscript_key data ''cod'' = Inr cod \<and> \<not> equals_200 cod
           \<and> subscript_key data ''message'' = Inr message" for data cod message
  proof -
    have h: "http_get w (weather_url city k) = Body data"
      and c: "subscript_key data ''cod'' = Inr cod" and n: "\<not> equals_200 cod"
      and m: "subscript_key data ''message'' = Inr message"
      using that by blast+
    show ?thesis
      by (simp add: get_weather_body[OF h] weather_report_error[OF c n m])
  qed
  show "py_str (JStr m) = m" for m
    by (simp add: py_str_def)
qed

theorem get_weather_sentence_and_error_example:
  "http_get fair_world (weather_url ''paris'' ''key'') = Body paris_answer
   \<and> get_weather fair_world ''paris'' ''key'' [] =
       ([HttpGet ''http://api.openweathermap.org/data/2.5/weather?q=paris&appid=key&units=metric''],
        Returns (''Paris weather: clear sky, 21.0'' @ [CHR 0xB0] @ ''C, feels like 20.5''
                   @ [CHR 0xB0] @ ''C.''),
        [])
   \<and> http_get foul_world (weather_url ''atlantis'' ''key'') = Body not_found_answer
   \<and> subscript_key not_found_answer ''cod'' = Inr (JStr ''404'')
   \<and> \<not> equals_200 (JStr ''404'')
   \<and> subscript_key not_found_answer ''message'' = Inr (JStr ''city not found'')
   \<and> get_weather foul_world ''atlantis'' ''key'' [] =
       ([HttpGet ''http://api.openweathermap.org/data/2.5/weather?q=atlantis&appid=key&units=metric''],
        Returns ''Error: city not found'', [])"
proof -
  have p: "http_get fair_world (weather_url ''paris'' ''key'') = Body paris_answer"
    by (simp add: fair_world_def)
  have n: "http_get foul_world (weather_url ''atlantis'' ''key'') = Body not_found_answer
           \<and> subscript_key not_found_answer ''cod'' = Inr (JStr ''404'')
           \<and> \<not> equals_200 (JStr ''404'')
           \<and> subscript_key not_found_answer ''message'' = Inr (JStr ''city not found'')"
    by (simp add: foul_world_def not_found_answer_def subscript_key_def equals_200_def)
  have a: "get_weather fair_world ''paris'' ''key'' [] =
       ([HttpGet (weather_url ''paris'' ''key'')],
        Returns (''Paris weather: clear sky, 21.0'' @ degree @ ''C, feels like 20.5''
                   @ degree @ ''C.''), [])"
    using get_weather_sentence_and_error[where w = fair_world and k = "''key''" and cs = "[]",
        THEN conjunct1] p
    by blast
  have b: "get_weather foul_world ''atlantis'' ''key'' [] =
       ([HttpGet (weather_url ''atlantis'' ''key'')],
        Returns (''Error: '' @ py_str (JStr ''city not found'')), [])"
    using get_weather_sentence_and_error[where w = foul_world and k = "''key''" and cs = "[]"
        and city = "''atlantis''", THEN conjunct2, THEN conjunct1] n
    by blast
  show ?thesis
    using p n a b by (simp add: weather_url_def degree_def py_str_def)
qed



text \<open>
  Cities with letters beyond ASCII: an o with diaeresis and an s, Saint-Etienne with
  its capital E with acute, and a sharp s in front.
\<close>

lemma capitalize_beyond_ascii:
  "capitalize ([CHR 0xF6] @ ''s'') = [CHR 0xD6] @ ''s''"
  "capitalize (''Saint-'' @ [CHR 0xC9] @ ''tienne'') = ''Saint-'' @ [CHR 0xE9] @ ''tienne''"
  "capitalize ([CHR 0xDF] @ ''a'') = ''Ssa''"
  by (simp_all add: capitalize_def title_char_def upper_char_def lower_def lower_char_def
      case_tables)




section \<open>The encyclopedia lookup\<close>

lemma get_wikipedia_summary_run:
  "get_wikipedia_summary w query cs =
     (WikiSetLang ''en'' # WikiSummary query 7
        # (case wiki_summary w query of
             Inr summary \<Rightarrow> []
           | Inl (DisambiguationError options) \<Rightarrow> []
           | Inl PageError \<Rightarrow> []
           | Inl e \<Rightarrow> [PrintExc ''Error accessing Wikipedia: '' e]),
      Returns
        (case wiki_summary w query of
           Inr summary \<Rightarrow> summary
         | Inl (DisambiguationError options) \<Rightarrow>
             ''Your query is too broad. Did you mean: '' @ join '', '' (take 3 options) @ ''?''
         | Inl PageError \<Rightarrow>
             ''I couldn't find any information on that topic. Please try rephrasing.''
         | Inl e \<Rightarrow> ''I encountered an issue accessing Wikipedia. Please try again later.''),
      cs)"
  by (simp add: get_wikipedia_summary_def io_try_def io_then_def io_bind_def emit_def
      call_value_def io_return_def split: sum.splits exc.splits)

text \<open>
  C7. \<^verbatim>\<open>get_wikipedia_summary\<close> returns normally in every world, with the summary when
  there is one. On a disambiguation it returns ``Your query is too broad. Did you
  mean: '', the first three of the offered topics in the order offered (all of them
  when fewer are offered), separated by a comma and a space, and a question mark.
  When the page is not found it returns the fixed ``couldn't find'' message, and on any
  other exception a fixed apology.
\<close>

theorem wikipedia_lookup_always_answers:
  "(\<exists>events answer. get_wikipedia_summary w query cs = (events, Returns answer, cs))
   \<and> (\<forall>summary. wiki_summary w query = Inr summary \<longrightarrow>
         result_of (get_wikipedia_summary w query) = Returns summary)
   \<and> (\<forall>options. wiki_summary w query = Inl (DisambiguationError options) \<longrightarrow>
         result_of (get_wikipedia_summary w query) =
           Returns (''Your query is too broad. Did you mean: ''
                      @ join '', '' (take 3 options) @ ''?''))
   \<and> (\<forall>a b c more. wiki_summary w query = Inl (DisambiguationError (a # b # c # more)) \<longrightarrow>
         result_of (get_wikipedia_summary w query) =
           Returns (''Your query is too broad. Did you mean: ''
                      @ a @ '', '' @ b @ '', '' @ c @ ''?''))
   \<and> (wiki_summary w query = Inl PageError \<longrightarrow>
         result_of (get_wikipedia_summary w query) =
           Returns ''I couldn't find any information on that topic. Please try rephrasing.'')
   \<and> (\<forall>e. wiki_summary w query = Inl e \<and> e \<noteq> PageError
            \<and> (\<forall>options. e \<noteq> DisambiguationError options) \<longrightarrow>
         result_of (get_wikipedia_summary w query) =
           Returns ''I encountered an issue accessing Wikipedia. Please try again later.'')"
proof (intro conjI allI impI)
  show "\<exists>events answer. get_wikipedia_summary w query cs = (events, Returns answer, cs)"
    by (simp add: get_wikipedia_summary_run)
  show "result_of (get_wikipedia_summary w query) = Returns summary"
    if "wiki_summary w query = Inr summary" for summary
    using that by (simp add: result_of_def get_wikipedia_summary_run)
  show "result_of (get_wikipedia_summary w query) =
           Returns (''Your query is too broad. Did you mean: ''
                      @ join '', '' (take 3 options) @ ''?'')"
    if "wiki_summary w query = Inl (DisambiguationError options)" for options
    using that by (simp add: result_of_def get_wikipedia_summary_run)
  show "result_of (get_wikipedia_summary w query) =
           Returns (''Your query is too broad. Did you mean: ''
                      @ a @ '', '' @ b @ '', '' @ c @ ''?'')"
    if "wiki_summary w query = Inl (DisambiguationError (a # b # c # more))" for a b c more
    using that by (simp add: result_of_def get_wikipedia_summary_run)
  show "result_of (get_wikipedia_summary w query) =
           Returns ''I couldn't find any information on that topic. Please try rephrasing.''"
    if "wiki_summary w query = Inl PageError"
    using that by (simp add: result_of_def get_wikipedia_summary_run)
  show "result_of (get_wikipedia_summary w query) =
           Returns ''I encountered an issue accessing Wikipedia. Please try again later.''"
    if "wiki_summary w query = Inl e \<and> e \<noteq> PageError
            \<and> (\<forall>options. e \<noteq> DisambiguationError options)" for e
    using that by (cases e) (simp_all add: result_of_def get_wikipedia_summary_run)
qed

theorem wikipedia_lookup_always_answers_example:
  "wiki_summary foul_world ''Apple'' =
      Inl (DisambiguationError [''Apple Inc.'', ''Apple (fruit)'', ''Apple Records'', ''Apple Corps''])
   \<and> result_of (get_wikipedia_summary foul_world ''Apple'') =
       Returns ''Your query is too broad. Did you mean: Apple Inc., Apple (fruit), Apple Records?''"
proof -
  have h: "wiki_summary foul_world ''Apple'' =
      Inl (DisambiguationError [''Apple Inc.'', ''Apple (fruit)'', ''Apple Records'', ''Apple Corps''])"
    by (simp add: foul_world_def apple_options_def)
  show ?thesis
    using h wikipedia_lookup_always_answers[of foul_world "''Apple''" "[]", THEN conjunct2,
        THEN conjunct2, THEN conjunct2, THEN conjunct1]
    by simp
qed

section \<open>The encyclopedia turn\<close>

lemma get_wikipedia_summary_returns:
  "\<exists>summary. result_of (get_wikipedia_summary w topic) = Returns summary"
  by (simp add: result_of_def get_wikipedia_summary_run)

lemma get_wikipedia_summary_detached:
  "get_wikipedia_summary w topic cs =
     (events_of (get_wikipedia_summary w topic), result_of (get_wikipedia_summary w topic), cs)"
  by (rule detached_run[OF returns_detached[OF returns_get_wikipedia_summary]])

lemma lookups_get_wikipedia_summary:
  "lookups (events_of (get_wikipedia_summary w topic)) = [WikiSummary topic 7]"
  by (simp add: events_of_def get_wikipedia_summary_run lookups_Cons lookups_Nil
      split: sum.splits exc.splits)

lemma wikipedia_turn_no_topic:
  assumes "extract_topic u = []"
  shows "wikipedia_turn g w u cs =
     (Print ''Please specify a topic for me to search.''
        # events_of (speak g w ''Please specify a topic for me to search.''),
      Returns (), cs)"
  by (simp add: wikipedia_turn_def Let_def assms print_and_speak_run)

lemma wikipedia_turn_topic:
  assumes "extract_topic u \<noteq> []"
    and "result_of (get_wikipedia_summary w (extract_topic u)) = Returns summary"
  shows "wikipedia_turn g w u cs =
     (Print (''Searching Wikipedia for '' @ extract_topic u @ ''...'')
        # events_of (speak g w (''Searching Wikipedia for '' @ extract_topic u @ ''...''))
        @ events_of (get_wikipedia_summary w (extract_topic u))
        @ Print summary # events_of (speak g w summary),
      Returns (), cs)"
  using assms(1)
  by (simp add: wikipedia_turn_def Let_def io_then_def io_bind_def print_and_speak_run
      get_wikipedia_summary_detached assms(2))

lemma topic_of_tell_me_about_wikipedia:
  "extract_topic ''tell me about wikipedia'' = ''wikipedia''"
  by (simp add: extract_topic_def strip_def lstrip_def rstrip_def isspace_def whitespace_def)

text \<open>
  A no-break space or a next-line control at the end is white space for \<^verbatim>\<open>strip\<close>, so
  nothing is left of these utterances and the turn asks for a topic.
\<close>

lemma topic_of_trailing_white_space:
  "extract_topic (''tell me about'' @ [CHR 0xA0]) = ''''"
  "extract_topic (''tell me about'' @ [CHR 0x85]) = ''''"
  "extract_topic (''tell me about '' @ [CHR 0x09]) = ''''"
  by (simp_all add: extract_topic_def strip_def lstrip_def rstrip_def isspace_def whitespace_def)

lemma lower_tell_me_about_wikipedia:
  "lower ''tell me about wikipedia'' = ''tell me about wikipedia''"
  by (simp add: lower_def lower_char_def case_tables)

text \<open>
  C8, the claim as stated fails at the utterance ``tell me about wikipedia''. With the
  phrases of the claim removed, ``wikipedia'' and ``tell me about'', nothing is left,
  and the claim has the loop ask for a topic and look nothing up. The program removes
  ``Wikipedia'' with a capital W, which is not in this utterance: its topic is
  ``wikipedia'', and it looks that topic up.
\<close>

theorem lower_case_wikipedia_stays_in_the_topic:
  "spec_topic ''tell me about wikipedia'' = ''''
   \<and> extract_topic ''tell me about wikipedia'' = ''wikipedia''
   \<and> lookups (fst (loop_body win32_globals fair_world ''key'' [heard ''tell me about wikipedia'']))
       = [WikiSummary ''wikipedia'' 7]"
proof (intro conjI)
  show "spec_topic ''tell me about wikipedia'' = ''''"
    by (simp add: spec_topic_def strip_def lstrip_def rstrip_def isspace_def whitespace_def)
  show "extract_topic ''tell me about wikipedia'' = ''wikipedia''"
    by (rule topic_of_tell_me_about_wikipedia)
  obtain summary where
    s: "result_of (get_wikipedia_summary fair_world (extract_topic ''tell me about wikipedia''))
          = Returns summary"
    using get_wikipedia_summary_returns by blast
  have h: "handle_query win32_globals fair_world ''key'' ''tell me about wikipedia'' =
     io_then (wikipedia_turn win32_globals fair_world ''tell me about wikipedia'')
       (io_then (print_and_speak win32_globals fair_world ''Do you need help with anything else?'')
          (io_return Continue))"
    by (rule handle_query_tell_me_about) (simp_all add: lower_tell_me_about_wikipedia)
  have n: "extract_topic ''tell me about wikipedia'' \<noteq> []"
    by (simp add: topic_of_tell_me_about_wikipedia)
  show "lookups (fst (loop_body win32_globals fair_world ''key'' [heard ''tell me about wikipedia'']))
       = [WikiSummary ''wikipedia'' 7]"
    by (simp add: loop_body_heard h
        then_help[where m = "wikipedia_turn win32_globals fair_world ''tell me about wikipedia''"
          and cs = "[]", OF wikipedia_turn_topic[OF n s]]
        lookups_append lookups_Cons lookups_listen_to lookups_speak
        lookups_get_wikipedia_summary topic_of_tell_me_about_wikipedia)
qed

text \<open>
  C8, amended. An utterance reaches the encyclopedia turn when, in lower case, it
  contains ``tell me about'' and neither ``bye'' nor ``weather''. Its topic is the
  utterance with every ``Wikipedia'' (written so, capital W) and then every ``tell me
  about'' (written so, in lower case) removed, and the white space at both ends
  trimmed. If the topic is empty the pass prints and speaks the request for a topic and
  looks nothing up; otherwise it announces the search, asks Wikipedia for that topic,
  once, and speaks what \<^verbatim>\<open>get_wikipedia_summary\<close> returned. Either way the closing
  question follows and the loop goes on.
\<close>

theorem encyclopedia_turn_looks_up_the_extracted_topic:
  assumes "\<not> contains ''bye'' (lower u)" and "\<not> contains ''weather'' (lower u)"
    and "contains ''tell me about'' (lower u)"
    and "topic = strip (replace ''tell me about'' '''' (replace ''Wikipedia'' '''' u))"
  shows "\<exists>summary.
     result_of (get_wikipedia_summary w topic) = Returns summary
     \<and> loop_body g w k (heard u # rest) =
         (events_of (listen_to g w (heard u))
            @ (if topic = ''''
               then Print ''Please specify a topic for me to search.''
                      # events_of (speak g w ''Please specify a topic for me to search.'')
               else Print (''Searching Wikipedia for '' @ topic @ ''...'')
                      # events_of (speak g w (''Searching Wikipedia for '' @ topic @ ''...''))
                      @ events_of (get_wikipedia_summary w topic)
                      @ Print summary # events_of (speak g w summary))
            @ Print ''Do you need help with anything else?''
            # events_of (speak g w ''Do you need help with anything else?''),
          Returns Continue, rest)
     \<and> lookups (fst (loop_body g w k (heard u # rest)))
         = (if topic = '''' then [] else [WikiSummary topic 7])"
proof -
  have t: "topic = extract_topic u"
    by (simp add: assms(4) extract_topic_def)
  obtain summary where s: "result_of (get_wikipedia_summary w (extract_topic u)) = Returns summary"
    using get_wikipedia_summary_returns by blast
  have h: "handle_query g w k u =
     io_then (wikipedia_turn g w u)
       (io_then (print_and_speak g w ''Do you need help with anything else?'')
          (io_return Continue))"
    using assms(1,2,3) by (rule handle_query_tell_me_about)
  have b: "loop_body g w k (heard u # rest) =
         (events_of (listen_to g w (heard u))
            @ (if topic = ''''
               then Print ''Please specify a topic for me to search.''
                      # events_of (speak g w ''Please specify a topic for me to search.'')
               else Print (''Searching Wikipedia for '' @ topic @ ''...'')
                      # events_of (speak g w (''Searching Wikipedia for '' @ topic @ ''...''))
                      @ events_of (get_wikipedia_summary w topic)
                      @ Print summary # events_of (speak g w summary))
            @ Print ''Do you need help with anything else?''
            # events_of (speak g w ''Do you need help with anything else?''),
          Returns Continue, rest)"
  proof (cases "extract_topic u = []")
    case True
    then show ?thesis
      by (simp add: loop_body_heard h t
          then_help[where m = "wikipedia_turn g w u" and cs = rest,
            OF wikipedia_turn_no_topic[OF True]])
  next
    case False
    then show ?thesis
      by (simp add: loop_body_heard h t
          then_help[where m = "wikipedia_turn g w u" and cs = rest,
            OF wikipedia_turn_topic[OF False s]])
  qed
  have l: "lookups (fst (loop_body g w k (heard u # rest)))
         = (if topic = '''' then [] else [WikiSummary topic 7])"
    by (simp add: b lookups_append lookups_Cons lookups_Nil lookups_listen_to lookups_speak
        lookups_get_wikipedia_summary)
  show ?thesis
    using s b l unfolding t by blast
qed

lemma topic_of_example:
  "strip (replace ''tell me about'' '''' (replace ''Wikipedia'' '''' ''tell me about Wikipedia cats''))
     = ''cats''"
  by (simp add: strip_def lstrip_def rstrip_def isspace_def whitespace_def)

theorem encyclopedia_turn_looks_up_the_extracted_topic_example:
  "\<not> contains ''bye'' (lower ''tell me about Wikipedia cats'')
   \<and> \<not> contains ''weather'' (lower ''tell me about Wikipedia cats'')
   \<and> contains ''tell me about'' (lower ''tell me about Wikipedia cats'')
   \<and> ''cats'' =
       strip (replace ''tell me about'' '''' (replace ''Wikipedia'' '''' ''tell me about Wikipedia cats''))
   \<and> lookups (fst (loop_body win32_globals fair_world ''key''
                      [heard ''tell me about Wikipedia cats'', heard ''later'']))
       = [WikiSummary ''cats'' 7]
   \<and> snd (loop_body win32_globals fair_world ''key''
             [heard ''tell me about Wikipedia cats'', heard ''later''])
       = (Returns Continue, [heard ''later''])"
proof -
  have lo: "lower ''tell me about Wikipedia cats'' = ''tell me about wikipedia cats''"
    by (simp add: lower_def lower_char_def case_tables)
  have h1: "\<not> contains ''bye'' (lower ''tell me about Wikipedia cats'')"
    by (simp add: lo)
  have h2: "\<not> contains ''weather'' (lower ''tell me about Wikipedia cats'')"
    by (simp add: lo)
  have h3: "contains ''tell me about'' (lower ''tell me about Wikipedia cats'')"
    by (simp add: lo)
  have h4: "''cats'' =
       strip (replace ''tell me about'' '''' (replace ''Wikipedia'' '''' ''tell me about Wikipedia cats''))"
    by (simp only: topic_of_example)
  show ?thesis
    using h1 h2 h3 h4
      encyclopedia_turn_looks_up_the_extracted_topic[OF h1 h2 h3 h4, of fair_world win32_globals
        "''key''" "[heard ''later'']"]
    by auto
qed

end
